theory Spec2Isabelle
  imports Complex_Main "HOL-Library.Word" "HOL-Library.Monad_Syntax"
begin

unbundle bit_operations_syntax

section \<open>Go values: bytes, fixed-width integers, slices, run-time panics\<close>

text \<open>
  The analyzer is written in Go.  Bytes and the unsigned header fields are machine words,
  whose \<open>+\<close>, \<open>-\<close> and \<open>*\<close> wrap around as Go's do.  Go's \<open>int\<close> is 64 bits wide on both
  targets of the repository (GOARCH=wasm for \<^verbatim>\<open>wasm-ver.go\<close>, a 64-bit host for the
  command-line tool); it is modelled as an Isabelle \<open>int\<close> that is brought back into the
  two's-complement range by \<open>int64\<close> after every addition that could leave it.

  A run-time panic (index out of range, slice bounds out of range) aborts the call: every
  function that can panic returns an \<open>option\<close>, and \<open>None\<close> is the panic.
\<close>

type_synonym byte = "8 word"
type_synonym uint16 = "16 word"
type_synonym uint32 = "32 word"
type_synonym uint64 = "64 word"

definition int64 :: "int \<Rightarrow> int" where
  "int64 k = signed_take_bit 63 k"

text \<open>
  A slice is a window \<open>[s_off, s_off + s_len)\<close> into a backing array; its capacity runs to
  the end of the array.  \<open>buffer bs\<close> is what \<^verbatim>\<open>make([]byte, n)\<close> followed by a copy
  gives: the window is the whole array.
\<close>

record slice =
  s_arr :: "byte list"
  s_off :: nat
  s_len :: nat

definition buffer :: "byte list \<Rightarrow> slice" where
  "buffer bs = \<lparr>s_arr = bs, s_off = 0, s_len = length bs\<rparr>"

definition golen :: "slice \<Rightarrow> int" where
  "golen s = int (s_len s)"

definition gocap :: "slice \<Rightarrow> int" where
  "gocap s = int (length (s_arr s)) - int (s_off s)"

text \<open>\<^verbatim>\<open>s[i]\<close>: panics unless \<open>0 \<le> i < len(s)\<close>.\<close>

definition index :: "slice \<Rightarrow> int \<Rightarrow> byte option" where
  "index s i =
     (if 0 \<le> i \<and> i < golen s then Some (s_arr s ! (s_off s + nat i)) else None)"

text \<open>\<^verbatim>\<open>s[lo:hi]\<close>: panics unless \<open>0 \<le> lo \<le> hi \<le> cap(s)\<close>.\<close>

definition reslice :: "slice \<Rightarrow> int \<Rightarrow> int \<Rightarrow> slice option" where
  "reslice s lo hi =
     (if 0 \<le> lo \<and> lo \<le> hi \<and> hi \<le> gocap s
      then Some \<lparr>s_arr = s_arr s, s_off = s_off s + nat lo, s_len = nat (hi - lo)\<rparr>
      else None)"

definition bytes_of :: "slice \<Rightarrow> byte list" where
  "bytes_of s = take (s_len s) (drop (s_off s) (s_arr s))"

text \<open>\<^verbatim>\<open>string(b)\<close> for a byte slice: the same bytes.\<close>

definition gostring :: "slice \<Rightarrow> string" where
  "gostring s = map (\<lambda>b. char_of (uint b)) (bytes_of s)"

text \<open>
  \<^verbatim>\<open>string(c)\<close> for a single byte \<open>c\<close>: the UTF-8 encoding of the code point \<open>c\<close>, one
  byte below \<open>0x80\<close> and two bytes from there on.
\<close>

definition string_of_byte :: "byte \<Rightarrow> string" where
  "string_of_byte c =
     (if c < 0x80 then [char_of (uint c)]
      else [char_of (uint (0xC0 OR drop_bit 6 c)), char_of (uint (0x80 OR (c AND 0x3F)))])"

subsection \<open>encoding/binary, little endian\<close>

definition Uint16 :: "slice \<Rightarrow> uint16 option" where
  "Uint16 b = do {
     b0 \<leftarrow> index b 0;
     b1 \<leftarrow> index b 1;
     Some (ucast b0 OR push_bit 8 (ucast b1))
   }"

definition Uint32 :: "slice \<Rightarrow> uint32 option" where
  "Uint32 b = do {
     b0 \<leftarrow> index b 0;
     b1 \<leftarrow> index b 1;
     b2 \<leftarrow> index b 2;
     b3 \<leftarrow> index b 3;
     Some (ucast b0 OR push_bit 8 (ucast b1) OR push_bit 16 (ucast b2)
           OR push_bit 24 (ucast b3))
   }"

definition Uint64 :: "slice \<Rightarrow> uint64 option" where
  "Uint64 b = do {
     b0 \<leftarrow> index b 0;
     b1 \<leftarrow> index b 1;
     b2 \<leftarrow> index b 2;
     b3 \<leftarrow> index b 3;
     b4 \<leftarrow> index b 4;
     b5 \<leftarrow> index b 5;
     b6 \<leftarrow> index b 6;
     b7 \<leftarrow> index b 7;
     Some (ucast b0 OR push_bit 8 (ucast b1) OR push_bit 16 (ucast b2)
           OR push_bit 24 (ucast b3) OR push_bit 32 (ucast b4) OR push_bit 40 (ucast b5)
           OR push_bit 48 (ucast b6) OR push_bit 56 (ucast b7))
   }"

subsection \<open>Conversion to float64\<close>

text \<open>
  \<^verbatim>\<open>float64(u)\<close> for an unsigned integer \<open>u\<close> rounds to a 53-bit significand, ties to even;
  the value of the result is an integer again.  Dividing a float64 of this size by
  \<open>1024 * 1024 * 1024\<close> only lowers the exponent and is exact, so a size in GB is held as
  the rational number the float64 denotes.
\<close>

text \<open>How many low bits of \<open>n\<close> do not fit: \<open>9007199254740992\<close> is \<open>2 ^ 53\<close>.\<close>

function roundShift :: "int \<Rightarrow> nat" where
  "roundShift n = (if n < 9007199254740992 then 0 else Suc (roundShift (n div 2)))"
  by pat_completeness auto
termination
  by (relation "measure nat") auto

definition float64 :: "int \<Rightarrow> rat" where
  "float64 n =
     (let e = roundShift n; q = n div 2 ^ e; r = n mod 2 ^ e
      in of_int ((if 2 ^ e < 2 * r \<or> (2 * r = 2 ^ e \<and> odd q) then q + 1 else q) * 2 ^ e))"

subsection \<open>fmt verbs\<close>

definition digit :: "int \<Rightarrow> char" where
  "digit d = char_of (48 + d)"

text \<open>The decimal digits of a number that is not negative.\<close>

function decimal :: "int \<Rightarrow> string" where
  "decimal n = (if n < 10 then [digit n] else decimal (n div 10) @ [digit (n mod 10)])"
  by pat_completeness auto
termination
  by (relation "measure nat") auto

text \<open>\<^verbatim>\<open>%d\<close>\<close>

definition fmt_d :: "int \<Rightarrow> string" where
  "fmt_d k = (if k < 0 then CHR ''-'' # decimal (- k) else decimal k)"

definition hexdigit :: "int \<Rightarrow> char" where
  "hexdigit d = (if d < 10 then char_of (48 + d) else char_of (55 + d))"

text \<open>\<^verbatim>\<open>%02X\<close> of a byte\<close>

definition fmt_02X :: "byte \<Rightarrow> string" where
  "fmt_02X b = [hexdigit (uint b div 16), hexdigit (uint b mod 16)]"

section \<open>The data model of \<^verbatim>\<open>wasm-ver.go\<close>\<close>

record PartitionInfo =
  Number :: int
  Status :: string
  Type :: string
  StartLBA :: uint64
  EndLBA :: uint64
  SizeGB :: rat
  Description :: string
  Name :: string
  Info :: string
  Note :: string

text \<open>
  The zero value of the struct; a composite literal sets the fields it names and leaves
  the others at this.
\<close>

definition PartitionInfo0 :: PartitionInfo where
  "PartitionInfo0 =
     \<lparr>Number = 0, Status = '''', Type = '''', StartLBA = 0, EndLBA = 0, SizeGB = 0,
      Description = '''', Name = '''', Info = '''', Note = ''''\<rparr>"

text \<open>
  A nil slice and an empty slice of \<open>PartitionInfo\<close> are both the empty list here; they
  differ only in how the JSON encoder prints them.
\<close>

record AnalysisResult =
  Filename :: string
  TableType :: string
  Partitions :: "PartitionInfo list"
  Error :: string
  GPTRevision :: string

definition GPT_SIGNATURE :: string where
  "GPT_SIGNATURE = ''EFI PART''"

section \<open>getMBRTypeDescription\<close>

definition descriptions :: "(byte \<times> string) list" where
  "descriptions =
     [(0x00, ''Empty''), (0x01, ''FAT12''), (0x04, ''FAT16 <32M''), (0x05, ''Extended''),
      (0x06, ''FAT16''), (0x07, ''HPFS/NTFS/exFAT''), (0x0B, ''W95 FAT32''),
      (0x0C, ''W95 FAT32 (LBA)''), (0x0E, ''W95 FAT16 (LBA)''), (0x0F, ''W95 Ext'' @ [CHR 0x27] @ ''d (LBA)''),
      (0x11, ''Hidden FAT12''), (0x14, ''Hidden FAT16 <32M''), (0x16, ''Hidden FAT16''),
      (0x17, ''Hidden HPFS/NTFS''), (0x1B, ''Hidden W95 FAT32''),
      (0x1C, ''Hidden W95 FAT32 (LBA)''), (0x1E, ''Hidden W95 FAT16 (LBA)''),
      (0x82, ''Linux swap''), (0x83, ''Linux''), (0x85, ''Linux extended''),
      (0x8E, ''Linux LVM''), (0xA0, ''Hibernation''), (0xA5, ''FreeBSD''), (0xA6, ''OpenBSD''),
      (0xA8, ''Darwin UFS''), (0xA9, ''NetBSD''), (0xAB, ''Darwin boot''),
      (0xAF, ''HFS / HFS+''), (0xBE, ''Solaris boot''), (0xBF, ''Solaris''),
      (0xEB, ''BeOS fs''), (0xEE, ''GPT''), (0xEF, ''EFI (FAT-12/16/32)''),
      (0xFB, ''VMware VMFS''), (0xFC, ''VMware VMKCORE''), (0xFD, ''Linux raid autodetect'')]"

definition getMBRTypeDescription :: "byte \<Rightarrow> string" where
  "getMBRTypeDescription partType =
     (case map_of descriptions partType of Some desc \<Rightarrow> desc | None \<Rightarrow> ''Unknown'')"

section \<open>readMBRPartitions (\<^verbatim>\<open>wasm-ver.go\<close>)\<close>

text \<open>
  The body of the loop over the four slots, for slot \<open>i\<close>: the record it appends, if any.
  \<open>sizeBlocks * SECTOR_SIZE\<close> is a product of two \<open>uint32\<close> values.
\<close>

definition mbrSlot :: "slice \<Rightarrow> int \<Rightarrow> PartitionInfo option option" where
  "mbrSlot data i = do {
     let offset = 446 + i * 16;
     status \<leftarrow> index data offset;
     partType \<leftarrow> index data (offset + 4);
     startLBA \<leftarrow> reslice data (offset + 8) (offset + 12) \<bind> Uint32;
     sizeBlocks \<leftarrow> reslice data (offset + 12) (offset + 16) \<bind> Uint32;
     if partType \<noteq> 0 then do {
       let statusStr = (if status = 0x80 then ''Active'' else ''Inactive'');
       let sizeGB = float64 (uint (sizeBlocks * 512)) / (1024 * 1024 * 1024);
       let typeDesc = getMBRTypeDescription partType;
       Some (Some (PartitionInfo0
         \<lparr>Number := i + 1, Status := statusStr, Type := ''0x'' @ fmt_02X partType,
          StartLBA := ucast startLBA, SizeGB := sizeGB, Description := typeDesc\<rparr>))
     } else Some None
   }"

function mbrLoop :: "slice \<Rightarrow> int \<Rightarrow> PartitionInfo list \<Rightarrow> PartitionInfo list option" where
  "mbrLoop data i partitions =
     (if i < 4 then do {
        r \<leftarrow> mbrSlot data i;
        mbrLoop data (i + 1) (case r of Some part \<Rightarrow> partitions @ [part] | None \<Rightarrow> partitions)
      } else Some partitions)"
  by pat_completeness auto
termination
  by (relation "measure (\<lambda>(data, i, partitions). nat (4 - i))") auto

definition readMBRPartitions :: "slice \<Rightarrow> PartitionInfo list option" where
  "readMBRPartitions data = mbrLoop data 0 []"

section \<open>readGPTPartitions (\<^verbatim>\<open>wasm-ver.go\<close>)\<close>

text \<open>The scan of the 16 bytes of the type GUID, from \<open>j\<close> on; it breaks at the first nonzero byte.\<close>

function allZeroLoop :: "slice \<Rightarrow> int \<Rightarrow> bool option" where
  "allZeroLoop partBytes j =
     (if j < 16 then do {
        b \<leftarrow> index partBytes j;
        if b \<noteq> 0 then Some False else allZeroLoop partBytes (j + 1)
      } else Some True)"
  by pat_completeness auto
termination
  by (relation "measure (\<lambda>(partBytes, j). nat (16 - j))") auto

text \<open>
  The name loop.  Both bytes of the code unit at \<open>j\<close> are read before the tests; the source
  reads \<open>partBytes[j]\<close> first and \<open>partBytes[j+1]\<close> in one of its two conditions, so the
  same reads happen and the same panics.
\<close>

function nameLoop :: "slice \<Rightarrow> int \<Rightarrow> string \<Rightarrow> string option" where
  "nameLoop partBytes j name =
     (if j < 56 + 72 \<and> j + 1 < golen partBytes then do {
        lo \<leftarrow> index partBytes j;
        hi \<leftarrow> index partBytes (j + 1);
        if lo = 0 \<and> hi = 0 then Some name
        else if hi = 0 \<and> 32 \<le> lo \<and> lo \<le> 126 then nameLoop partBytes (j + 2) (name @ string_of_byte lo)
        else nameLoop partBytes (j + 2) name
      } else Some name)"
  by pat_completeness auto
termination
  by (relation "measure (\<lambda>(partBytes, j, name). nat (128 - j))") auto

text \<open>
  The body of the loop over the entries once \<open>partBytes\<close> is cut out: the record it appends,
  if any.  \<open>partCount\<close> is the counter before the entry; the record carries it incremented.
\<close>

definition gptEntry :: "slice \<Rightarrow> int \<Rightarrow> PartitionInfo option option" where
  "gptEntry partBytes partCount = do {
     allZero \<leftarrow> allZeroLoop partBytes 0;
     if \<not> allZero then do {
       startLBA \<leftarrow> reslice partBytes 32 40 \<bind> Uint64;
       endLBA \<leftarrow> reslice partBytes 40 48 \<bind> Uint64;
       name \<leftarrow> nameLoop partBytes 56 '''';
       let name = (if name = '''' then ''Unnamed'' else name);
       let sizeGB = float64 (uint ((endLBA - startLBA + 1) * 512)) / (1024 * 1024 * 1024);
       Some (Some (PartitionInfo0
         \<lparr>Number := partCount + 1, StartLBA := startLBA, EndLBA := endLBA,
          SizeGB := sizeGB, Name := name\<rparr>))
     } else Some None
   }"

function gptLoop ::
  "slice \<Rightarrow> uint32 \<Rightarrow> uint32 \<Rightarrow> int \<Rightarrow> uint32 \<Rightarrow> int \<Rightarrow> PartitionInfo list
     \<Rightarrow> PartitionInfo list option" where
  "gptLoop data numPartitions partitionEntrySize partitionTableOffset i partCount partitions =
     (if i < numPartitions \<and>
         int64 (int64 (partitionTableOffset + uint (i * partitionEntrySize))
                + uint partitionEntrySize) \<le> golen data
      then do {
        let entryOffset = int64 (partitionTableOffset + uint (i * partitionEntrySize));
        partBytes \<leftarrow> reslice data entryOffset (int64 (entryOffset + uint partitionEntrySize));
        r \<leftarrow> gptEntry partBytes partCount;
        (case r of
           Some part \<Rightarrow>
             gptLoop data numPartitions partitionEntrySize partitionTableOffset (i + 1)
               (partCount + 1) (partitions @ [part])
         | None \<Rightarrow>
             gptLoop data numPartitions partitionEntrySize partitionTableOffset (i + 1)
               partCount partitions)
      } else Some partitions)"
  by pat_completeness auto
termination
proof (relation "measure (\<lambda>(data, numPartitions, partitionEntrySize, partitionTableOffset,
    i, partCount, partitions). unat numPartitions - unat i)")
  show "wf (measure (\<lambda>(data, numPartitions, partitionEntrySize, partitionTableOffset,
    i, partCount, partitions). unat numPartitions - unat i))"
    by simp
next
  fix data :: slice and numPartitions partitionEntrySize i :: uint32
    and partitionTableOffset partCount :: int and partitions :: "PartitionInfo list"
    and x xa xb xc
  assume "i < numPartitions \<and>
         int64 (int64 (partitionTableOffset + uint (i * partitionEntrySize))
                + uint partitionEntrySize) \<le> golen data"
  then have "i < numPartitions" by simp
  then have "unat i < unat numPartitions"
    by (simp add: word_less_nat_alt)
  moreover have "unat numPartitions < 2 ^ 32"
    using unsigned_less [of numPartitions, where 'a = nat] by simp
  ultimately have "unat i + 1 < 2 ^ 32"
    by linarith
  then have "unat (i + 1) = unat i + 1"
    by (simp add: unat_word_ariths)
  note \<open>unat (i + 1) = unat i + 1\<close> \<open>unat i < unat numPartitions\<close>
  then show "((data, numPartitions, partitionEntrySize, partitionTableOffset, i + 1,
          partCount + 1, partitions @ [xc]),
         data, numPartitions, partitionEntrySize, partitionTableOffset, i, partCount, partitions)
        \<in> measure (\<lambda>(data, numPartitions, partitionEntrySize, partitionTableOffset,
    i, partCount, partitions). unat numPartitions - unat i)"
    by simp
  from \<open>unat (i + 1) = unat i + 1\<close> \<open>unat i < unat numPartitions\<close>
  show "((data, numPartitions, partitionEntrySize, partitionTableOffset, i + 1,
          partCount, partitions),
         data, numPartitions, partitionEntrySize, partitionTableOffset, i, partCount, partitions)
        \<in> measure (\<lambda>(data, numPartitions, partitionEntrySize, partitionTableOffset,
    i, partCount, partitions). unat numPartitions - unat i)"
    by simp
qed

text \<open>
  \<open>partitionTableLBA * SECTOR_SIZE\<close> is a \<open>uint64\<close> product, \<open>numPartitions *
  partitionEntrySize\<close> a \<open>uint32\<close> product; \<open>int(\<dots>)\<close> reads the first as a signed 64-bit
  value and the second as it is.
\<close>

definition readGPTPartitions :: "slice \<Rightarrow> PartitionInfo list option" where
  "readGPTPartitions data =
     (if golen data < 512 * 2 then
        Some [PartitionInfo0
          \<lparr>Number := 1, Info := ''GPT detected but insufficient data'',
           Note := ''Need at least 1KB of data to read GPT header''\<rparr>]
      else do {
        headerBytes \<leftarrow> reslice data 512 (512 * 2);
        sig \<leftarrow> reslice headerBytes 0 8;
        if gostring sig \<noteq> GPT_SIGNATURE then
          Some [PartitionInfo0
            \<lparr>Number := 1, Info := ''Invalid GPT signature in header'',
             Note := ''GPT structure may be corrupted''\<rparr>]
        else do {
          revision \<leftarrow> reslice headerBytes 8 12 \<bind> Uint32;
          numPartitions \<leftarrow> reslice headerBytes 80 84 \<bind> Uint32;
          partitionEntrySize \<leftarrow> reslice headerBytes 84 88 \<bind> Uint32;
          partitionTableLBA \<leftarrow> reslice headerBytes 72 80 \<bind> Uint64;
          let requiredSize =
            int64 (sint (partitionTableLBA * 512) + uint (numPartitions * partitionEntrySize));
          if golen data < requiredSize then
            Some [PartitionInfo0
              \<lparr>Number := 1,
               Info := ''GPT detected (Rev '' @ fmt_d (uint (drop_bit 16 revision)) @ ''.''
                       @ fmt_d (uint (revision AND 0xFFFF)) @ '', ''
                       @ fmt_d (uint numPartitions) @ '' partitions)'',
               Note := ''Need at least '' @ fmt_d requiredSize
                       @ '' bytes to read all partition entries''\<rparr>]
          else do {
            let partitionTableOffset = sint (partitionTableLBA * 512);
            partitions \<leftarrow>
              gptLoop data numPartitions partitionEntrySize partitionTableOffset 0 0 [];
            if length partitions = 0 then
              Some [PartitionInfo0
                \<lparr>Number := 1,
                 Info := ''GPT structure valid (Rev '' @ fmt_d (uint (drop_bit 16 revision))
                         @ ''.'' @ fmt_d (uint (revision AND 0xFFFF)) @ '')'',
                 Note := ''No active partitions found in partition table''\<rparr>]
            else Some partitions
          }
        }
      })"

section \<open>analyzeDiskImage (\<^verbatim>\<open>wasm-ver.go\<close>)\<close>

definition analyzeDiskImage :: "slice \<Rightarrow> string \<Rightarrow> AnalysisResult option" where
  "analyzeDiskImage data filename =
     (let result = \<lparr>Filename = filename, TableType = '''', Partitions = [], Error = '''',
                    GPTRevision = ''''\<rparr>
      in if golen data < 512 then Some (result\<lparr>Error := ''Data too small to contain MBR''\<rparr>)
         else do {
           signature \<leftarrow> reslice data 510 512 \<bind> Uint16;
           if signature \<noteq> 0xAA55 then Some (result\<lparr>Error := ''Invalid MBR signature''\<rparr>)
           else do {
             firstPartType \<leftarrow> index data (446 + 4);
             if firstPartType = 0xEE then do {
               partitions \<leftarrow> readGPTPartitions data;
               Some (result\<lparr>TableType := ''GPT'', Partitions := partitions\<rparr>)
             } else do {
               partitions \<leftarrow> readMBRPartitions data;
               Some (result\<lparr>TableType := ''MBR'', Partitions := partitions\<rparr>)
             }
           }
         })"

section \<open>The command-line tool\<close>

text \<open>
  The second source file is the command-line tool.  It reads the image through an
  \<^verbatim>\<open>*os.File\<close> and prints what it finds.  The file is modelled as the bytes of a regular
  file, the current offset and the largest offset that its file system lets a seek set
  (a parameter: it differs from one file system to another and is at least the length of
  any file there); the standard output as the list of the print calls made,
  each with its format and the values of its arguments (the layout of a formatted number
  is the business of \<^verbatim>\<open>fmt\<close>).  The model starts where \<^verbatim>\<open>main\<close> has opened the file.
\<close>

record osfile =
  f_data :: "byte list"
  f_pos :: int
  f_max :: int

definition open_file :: "int \<Rightarrow> byte list \<Rightarrow> osfile" where
  "open_file maxoff bs = \<lparr>f_data = bs, f_pos = 0, f_max = maxoff\<rparr>"

text \<open>
  \<^verbatim>\<open>file.Read(b)\<close> with \<open>len(b) = k\<close>, where \<open>b\<close> is fresh from \<^verbatim>\<open>make\<close>: the bytes now in \<open>b\<close>,
  the count \<open>n\<close> and whether \<open>err\<close> is not nil.  A regular file gives what is left, up to
  \<open>k\<close> bytes; nothing read into a buffer that is not empty is \<^verbatim>\<open>io.EOF\<close>.
\<close>

definition file_Read :: "osfile \<Rightarrow> int \<Rightarrow> (byte list \<times> int \<times> bool) \<times> osfile" where
  "file_Read f k =
     (let left = int (length (f_data f)) - f_pos f;
          n = (if left < 0 then 0 else min k left)
      in ((take (nat n) (drop (nat (f_pos f)) (f_data f)) @ replicate (nat (k - n)) 0,
           n, n = 0 \<and> 0 < k),
          f\<lparr>f_pos := f_pos f + n\<rparr>))"

text \<open>
  \<^verbatim>\<open>file.Seek(offset, 0)\<close>, its results dropped as the tool drops them: an offset that is
  negative or beyond the largest one of the file system is refused and leaves the offset
  where it was.
\<close>

definition file_Seek :: "osfile \<Rightarrow> int \<Rightarrow> osfile" where
  "file_Seek f offset =
     (if offset < 0 \<or> f_max f < offset then f else f\<lparr>f_pos := offset\<rparr>)"

datatype arg = I int | B byte | U32 uint32 | U64 uint64 | F rat | S string

datatype event = Println string | Printf string "arg list"

subsection \<open>readMBRPartitions (command-line tool)\<close>

definition cli_mbrSlot :: "slice \<Rightarrow> int \<Rightarrow> event option option" where
  "cli_mbrSlot mbr i = do {
     let offset = 446 + i * 16;
     status \<leftarrow> index mbr offset;
     partType \<leftarrow> index mbr (offset + 4);
     startLBA \<leftarrow> reslice mbr (offset + 8) (offset + 12) \<bind> Uint32;
     sizeBlocks \<leftarrow> reslice mbr (offset + 12) (offset + 16) \<bind> Uint32;
     if partType \<noteq> 0 then do {
       let statusStr = (if status = 0x80 then ''Active'' else ''Inactive'');
       let sizeGB = float64 (uint (sizeBlocks * 512)) / (1024 * 1024 * 1024);
       let typeDesc = getMBRTypeDescription partType;
       Some (Some (Printf ''%-4d %-8s 0x%-10X %-12d %-12.2f %s\<newline>''
         [I (i + 1), S statusStr, B partType, U32 startLBA, F sizeGB, S typeDesc]))
     } else Some None
   }"

function cli_mbrLoop :: "slice \<Rightarrow> int \<Rightarrow> int \<Rightarrow> event list \<Rightarrow> (int \<times> event list) option" where
  "cli_mbrLoop mbr i partCount out =
     (if i < 4 then do {
        r \<leftarrow> cli_mbrSlot mbr i;
        (case r of
           Some row \<Rightarrow> cli_mbrLoop mbr (i + 1) (partCount + 1) (out @ [row])
         | None \<Rightarrow> cli_mbrLoop mbr (i + 1) partCount out)
      } else Some (partCount, out))"
  by pat_completeness auto
termination
  by (relation "measure (\<lambda>(mbr, i, partCount, out). nat (4 - i))") auto

definition cli_readMBRPartitions :: "slice \<Rightarrow> event list option" where
  "cli_readMBRPartitions mbr = do {
     let out = [Println ''\<newline>Partitions:'',
                Printf ''%-4s %-8s %-12s %-12s %-12s %s\<newline>''
                  [S ''#'', S ''Status'', S ''Type'', S ''Start LBA'', S ''Size'', S ''Description''],
                Println (replicate 70 (CHR 0x00))];
     (partCount, out) \<leftarrow> cli_mbrLoop mbr 0 0 out;
     Some (if partCount = 0 then out @ [Println ''No partitions found''] else out)
   }"

subsection \<open>readGPTPartitions (command-line tool)\<close>

text \<open>The name loop of the tool: no test of the length, and every code unit with a zero high byte is kept.\<close>

function cli_nameLoop :: "slice \<Rightarrow> int \<Rightarrow> string \<Rightarrow> string option" where
  "cli_nameLoop partBytes j name =
     (if j < 56 + 72 then do {
        lo \<leftarrow> index partBytes j;
        hi \<leftarrow> index partBytes (j + 1);
        if lo = 0 \<and> hi = 0 then Some name
        else if hi = 0 then cli_nameLoop partBytes (j + 2) (name @ string_of_byte lo)
        else cli_nameLoop partBytes (j + 2) name
      } else Some name)"
  by pat_completeness auto
termination
  by (relation "measure (\<lambda>(partBytes, j, name). nat (128 - j))") auto

definition cli_gptEntry :: "slice \<Rightarrow> int \<Rightarrow> event option option" where
  "cli_gptEntry partBytes partCount = do {
     allZero \<leftarrow> allZeroLoop partBytes 0;
     if \<not> allZero then do {
       startLBA \<leftarrow> reslice partBytes 32 40 \<bind> Uint64;
       endLBA \<leftarrow> reslice partBytes 40 48 \<bind> Uint64;
       name \<leftarrow> cli_nameLoop partBytes 56 [];
       let name = (if name = [] then ''Unnamed'' else name);
       let sizeGB = float64 (uint ((endLBA - startLBA + 1) * 512)) / (1024 * 1024 * 1024);
       Some (Some (Printf ''%-4d %-12d %-12d %-12.2f %s\<newline>''
         [I (partCount + 1), U64 startLBA, U64 endLBA, F sizeGB, S name]))
     } else Some None
   }"

text \<open>
  The loop over the entries: each is read from the file where the last read stopped, into
  a buffer of its own; a short read ends the loop.
\<close>

function cli_gptLoop ::
  "osfile \<Rightarrow> uint32 \<Rightarrow> uint32 \<Rightarrow> uint32 \<Rightarrow> int \<Rightarrow> event list \<Rightarrow> (int \<times> event list) option" where
  "cli_gptLoop f NumPartitions PartitionEntrySize i partCount out =
     (if i < NumPartitions then
        (case file_Read f (uint PartitionEntrySize) of
           ((partBytes, n, err), f') \<Rightarrow>
             if err \<or> (word_of_int n :: uint32) \<noteq> PartitionEntrySize then Some (partCount, out)
             else do {
               r \<leftarrow> cli_gptEntry (buffer partBytes) partCount;
               (case r of
                  Some row \<Rightarrow>
                    cli_gptLoop f' NumPartitions PartitionEntrySize (i + 1) (partCount + 1)
                      (out @ [row])
                | None \<Rightarrow>
                    cli_gptLoop f' NumPartitions PartitionEntrySize (i + 1) partCount out)
             })
      else Some (partCount, out))"
  by pat_completeness auto
termination
proof (relation "measure (\<lambda>(f, NumPartitions, PartitionEntrySize, i, partCount, out).
    unat NumPartitions - unat i)", goal_cases)
  case 1
  show ?case by simp
next
  case (2 f NumPartitions PartitionEntrySize i partCount out)
  then have "unat i < unat NumPartitions"
    by (simp add: word_less_nat_alt)
  moreover have "unat NumPartitions < 2 ^ 32"
    using unsigned_less [of NumPartitions, where 'a = nat] by simp
  ultimately have "unat i + 1 < 2 ^ 32"
    by linarith
  then have "unat (i + 1) = unat i + 1"
    by (simp add: unat_word_ariths)
  with \<open>unat i < unat NumPartitions\<close> show ?case by simp
next
  case (3 f NumPartitions PartitionEntrySize i partCount out)
  then have "unat i < unat NumPartitions"
    by (simp add: word_less_nat_alt)
  moreover have "unat NumPartitions < 2 ^ 32"
    using unsigned_less [of NumPartitions, where 'a = nat] by simp
  ultimately have "unat i + 1 < 2 ^ 32"
    by linarith
  then have "unat (i + 1) = unat i + 1"
    by (simp add: unat_word_ariths)
  with \<open>unat i < unat NumPartitions\<close> show ?case by simp
qed

text \<open>
  The header sector is read at offset 512, its fields are decoded, and the entries are
  read from where the seek to \<open>PartitionTableLBA * SECTOR_SIZE\<close> leaves the file.
\<close>

definition cli_readGPTPartitions :: "osfile \<Rightarrow> event list option" where
  "cli_readGPTPartitions f =
     (let f = file_Seek f 512 in
      case file_Read f 512 of
        ((headerBytes, n, err), f) \<Rightarrow>
          if err \<or> n \<noteq> 512 then
            Some [Printf ''Error reading GPT header: %v\<newline>'' [S (if err then ''EOF'' else ''<nil>'')]]
          else do {
            let headerBytes = buffer headerBytes;
            Signature \<leftarrow> reslice headerBytes 0 8;
            Revision \<leftarrow> reslice headerBytes 8 12 \<bind> Uint32;
            HeaderSize \<leftarrow> reslice headerBytes 12 16 \<bind> Uint32;
            NumPartitions \<leftarrow> reslice headerBytes 80 84 \<bind> Uint32;
            PartitionEntrySize \<leftarrow> reslice headerBytes 84 88 \<bind> Uint32;
            PartitionTableLBA \<leftarrow> reslice headerBytes 72 80 \<bind> Uint64;
            if gostring Signature \<noteq> GPT_SIGNATURE then Some [Println ''Invalid GPT signature'']
            else do {
              let out = [Printf ''GPT Revision: %d.%d\<newline>''
                           [U32 (drop_bit 16 Revision), U32 (Revision AND 0xFFFF)],
                         Printf ''Number of Partitions: %d\<newline>'' [U32 NumPartitions]];
              let f = file_Seek f (sint (PartitionTableLBA * 512));
              let out = out @
                        [Println ''\<newline>Partitions:'',
                         Printf ''%-4s %-12s %-12s %-12s %s\<newline>''
                           [S ''#'', S ''Start LBA'', S ''End LBA'', S ''Size'', S ''Name''],
                         Println (replicate 60 (CHR 0x00))];
              (partCount, out) \<leftarrow> cli_gptLoop f NumPartitions PartitionEntrySize 0 0 out;
              Some (if partCount = 0 then out @ [Println ''No partitions found''] else out)
            }
          })"

subsection \<open>main (command-line tool)\<close>

text \<open>
  From the first read on: the standard output and the exit status (\<open>0\<close> when \<^verbatim>\<open>main\<close>
  returns, \<open>1\<close> from \<^verbatim>\<open>os.Exit(1)\<close>).  The first argument is the largest offset of the
  file system that holds the file.
\<close>

definition cli_main :: "int \<Rightarrow> string \<Rightarrow> byte list \<Rightarrow> (event list \<times> int) option" where
  "cli_main maxoff filename bs =
     (case file_Read (open_file maxoff bs) 512 of
        ((mbr, n, err), f) \<Rightarrow>
          if err \<or> n \<noteq> 512 then
            Some ([Printf ''Error reading MBR: %v\<newline>'' [S (if err then ''EOF'' else ''<nil>'')]], 1)
          else do {
            let mbr = buffer mbr;
            signature \<leftarrow> reslice mbr 510 512 \<bind> Uint16;
            if signature \<noteq> 0xAA55 then Some ([Println ''Invalid MBR signature''], 1)
            else do {
              let out = [Printf ''Disk Image: %s\<newline>'' [S filename],
                         Println (CHR ''='' # replicate (length filename + 12) (CHR 0x00))];
              firstPartType \<leftarrow> index mbr (446 + 4);
              if firstPartType = 0xEE then do {
                rows \<leftarrow> cli_readGPTPartitions f;
                Some (out @ [Println ''Partition Table Type: GPT''] @ rows, 0)
              } else do {
                rows \<leftarrow> cli_readMBRPartitions mbr;
                Some (out @ [Println ''Partition Table Type: MBR''] @ rows, 0)
              }
            }
          })"

section \<open>Reading an image by offset\<close>

text \<open>The little-endian value of the bytes of an image at an offset, for stating what a field holds.\<close>

definition u16_at :: "byte list \<Rightarrow> nat \<Rightarrow> uint16" where
  "u16_at bs k = ucast (bs ! k) OR push_bit 8 (ucast (bs ! (k + 1)))"

definition u32_at :: "byte list \<Rightarrow> nat \<Rightarrow> uint32" where
  "u32_at bs k =
     ucast (bs ! k) OR push_bit 8 (ucast (bs ! (k + 1))) OR push_bit 16 (ucast (bs ! (k + 2)))
     OR push_bit 24 (ucast (bs ! (k + 3)))"

definition u64_at :: "byte list \<Rightarrow> nat \<Rightarrow> uint64" where
  "u64_at bs k =
     ucast (bs ! k) OR push_bit 8 (ucast (bs ! (k + 1))) OR push_bit 16 (ucast (bs ! (k + 2)))
     OR push_bit 24 (ucast (bs ! (k + 3))) OR push_bit 32 (ucast (bs ! (k + 4)))
     OR push_bit 40 (ucast (bs ! (k + 5))) OR push_bit 48 (ucast (bs ! (k + 6)))
     OR push_bit 56 (ucast (bs ! (k + 7)))"

section \<open>What the two GPT readers report\<close>

text \<open>
  A row of a partition listing: index, start LBA, end LBA, size in GB, name.  The binding
  reports a row as a record without an \<open>Info\<close> text (the advisory records carry one); the
  tool prints it with the one \<^verbatim>\<open>Printf\<close> whose arguments are of these five types.
\<close>

type_synonym row = "int \<times> uint64 \<times> uint64 \<times> rat \<times> string"

definition row_of_record :: "PartitionInfo \<Rightarrow> row" where
  "row_of_record p = (Number p, StartLBA p, EndLBA p, SizeGB p, Name p)"

definition wasm_rows :: "PartitionInfo list \<Rightarrow> row list" where
  "wasm_rows ps = map row_of_record (filter (\<lambda>p. Info p = []) ps)"

fun row_of_event :: "event \<Rightarrow> row list" where
  "row_of_event (Printf fmt [I n, U64 a, U64 b, F g, S nm]) = [(n, a, b, g, nm)]"
| "row_of_event _ = []"

definition cli_rows :: "event list \<Rightarrow> row list" where
  "cli_rows out = concat (map row_of_event out)"

text \<open>Printable ASCII: the bytes from \<open>32\<close> to \<open>126\<close>.\<close>

definition printable :: "char \<Rightarrow> bool" where
  "printable c \<longleftrightarrow> 32 \<le> (of_char c :: int) \<and> (of_char c :: int) \<le> 126"

text \<open>
  A row \<open>w\<close> of the binding agrees with a row \<open>c\<close> of the tool: the same numbers; the name of
  \<open>c\<close> is not empty, and the name of \<open>w\<close> is the name of \<open>c\<close> without the characters outside
  printable ASCII, or ``Unnamed'' when none is left.  So the two names are equal whenever
  that of \<open>c\<close> is printable ASCII throughout.
\<close>

definition same_row :: "row \<Rightarrow> row \<Rightarrow> bool" where
  "same_row w c \<longleftrightarrow>
     fst w = fst c \<and> fst (snd w) = fst (snd c) \<and> fst (snd (snd w)) = fst (snd (snd c)) \<and>
     fst (snd (snd (snd w))) = fst (snd (snd (snd c))) \<and>
     snd (snd (snd (snd c))) \<noteq> [] \<and>
     snd (snd (snd (snd w))) =
       (if filter printable (snd (snd (snd (snd c)))) = [] then ''Unnamed''
        else filter printable (snd (snd (snd (snd c)))))"




text \<open>
  A record that stands for an entry of the table of \<open>n\<close> entries of \<open>s\<close> bytes at byte
  offset \<open>off\<close>: some entry \<open>j\<close> lies at \<open>k\<close> in the image, its type GUID is not all zero,
  and the record holds the two 64-bit fields at \<open>k + 32\<close> and \<open>k + 40\<close> as they are stored.
\<close>

definition is_entry_record ::
  "byte list \<Rightarrow> uint32 \<Rightarrow> uint32 \<Rightarrow> int \<Rightarrow> PartitionInfo \<Rightarrow> bool" where
  "is_entry_record bs n s off p \<longleftrightarrow>
     Info p = [] \<and>
     (\<exists>j k. j < n \<and> int k = int64 (off + uint (j * s)) \<and> k + 48 \<le> length bs \<and>
        (\<exists>m<16. bs ! (k + m) \<noteq> 0) \<and>
        StartLBA p = u64_at bs (k + 32) \<and> EndLBA p = u64_at bs (k + 40))"

section \<open>Images for the examples\<close>

definition le32 :: "uint32 \<Rightarrow> byte list" where
  "le32 v = [ucast v, ucast (drop_bit 8 v), ucast (drop_bit 16 v), ucast (drop_bit 24 v)]"

definition le64 :: "uint64 \<Rightarrow> byte list" where
  "le64 v =
     [ucast v, ucast (drop_bit 8 v), ucast (drop_bit 16 v), ucast (drop_bit 24 v),
      ucast (drop_bit 32 v), ucast (drop_bit 40 v), ucast (drop_bit 48 v), ucast (drop_bit 56 v)]"

text \<open>A 16-byte slot of the boot sector: status, type, start LBA, size in sectors.\<close>

definition mbrSlotBytes :: "byte \<Rightarrow> byte \<Rightarrow> uint32 \<Rightarrow> uint32 \<Rightarrow> byte list" where
  "mbrSlotBytes status ty start sz = [status, 0, 0, 0, ty, 0, 0, 0] @ le32 start @ le32 sz"

text \<open>A boot sector with the four slots given and the signature \<open>0xAA55\<close>.\<close>

definition bootSector :: "byte list \<Rightarrow> byte list \<Rightarrow> byte list \<Rightarrow> byte list \<Rightarrow> byte list" where
  "bootSector s1 s2 s3 s4 = replicate 446 0 @ s1 @ s2 @ s3 @ s4 @ [0x55, 0xAA]"

text \<open>The protective boot sector of a GPT disk: type \<open>0xEE\<close> in the first slot.\<close>

definition protectiveMBR :: "byte list" where
  "protectiveMBR =
     bootSector (mbrSlotBytes 0 0xEE 1 0xFFFFFFFF) (replicate 16 0) (replicate 16 0)
       (replicate 16 0)"

text \<open>A 512-byte GPT header sector: ``EFI PART'', revision, table LBA, entry count, entry size.\<close>

definition gptHeader :: "uint32 \<Rightarrow> uint64 \<Rightarrow> uint32 \<Rightarrow> uint32 \<Rightarrow> byte list" where
  "gptHeader revision lba n sz =
     [0x45, 0x46, 0x49, 0x20, 0x50, 0x41, 0x52, 0x54] @ le32 revision @ replicate 60 0
     @ le64 lba @ le32 n @ le32 sz @ replicate 424 0"

text \<open>
  A 128-byte GPT entry: the first byte of the type GUID, start and end LBA, and the first
  two code units of the name (low byte, high byte each); everything else zero.
\<close>

definition gptEntryBytes :: "byte \<Rightarrow> uint64 \<Rightarrow> uint64 \<Rightarrow> byte list \<Rightarrow> byte list" where
  "gptEntryBytes guid0 start end4 name4 =
     guid0 # replicate 31 0 @ le64 start @ le64 end4 @ replicate 8 0 @ name4 @ replicate 68 0"

text \<open>
  A boot sector whose third slot is a Linux partition of 204800 sectors at LBA 2048; the
  first slot has type 0 and other fields that are not zero.
\<close>

definition mbr_linux :: "byte list" where
  "mbr_linux =
     bootSector (mbrSlotBytes 0x80 0 63 1000) (replicate 16 0) (mbrSlotBytes 0 0x83 2048 204800)
       (replicate 16 0)"

text \<open>A boot sector whose first slot is a Linux partition of \<open>0x800000\<close> sectors, which is 4 GiB.\<close>

definition mbr_4GiB :: "byte list" where
  "mbr_4GiB =
     bootSector (mbrSlotBytes 0x80 0x83 2048 0x800000) (replicate 16 0) (replicate 16 0)
       (replicate 16 0)"

text \<open>A sector of zeros: no boot signature.\<close>

definition no_signature :: "byte list" where
  "no_signature = replicate 512 0"

text \<open>
  A GPT image of two 128-byte entries at LBA 2: the first with an all-zero type GUID and
  start, end and name fields that are not zero, the second a partition named ``AB'' from
  LBA 34 to 2047.
\<close>

definition gpt_one :: "byte list" where
  "gpt_one =
     protectiveMBR @ gptHeader 0x10000 2 2 128
     @ gptEntryBytes 0 34 2047 [0x41, 0, 0x42, 0] @ gptEntryBytes 0xAF 34 2047 [0x41, 0, 0x42, 0]"

text \<open>The same with both type GUIDs all zero.\<close>

definition gpt_unused :: "byte list" where
  "gpt_unused =
     protectiveMBR @ gptHeader 0x10000 2 2 128
     @ gptEntryBytes 0 34 2047 [0x41, 0, 0x42, 0] @ replicate 128 0"

text \<open>One entry whose start LBA 100 is above its end LBA 50.\<close>

definition gpt_reversed :: "byte list" where
  "gpt_reversed =
     protectiveMBR @ gptHeader 0x10000 2 1 128 @ gptEntryBytes 0xAF 100 50 [0x41, 0, 0, 0]"

text \<open>One entry whose name is the single code unit \<open>0x0007\<close>.\<close>

definition gpt_bell_name :: "byte list" where
  "gpt_bell_name =
     protectiveMBR @ gptHeader 0x10000 2 1 128 @ gptEntryBytes 0xAF 34 2047 [0x07, 0, 0, 0]"


text \<open>Two sectors; the header announces one entry of size 0 at LBA 2.\<close>

definition gpt_entry_size_0 :: "byte list" where
  "gpt_entry_size_0 = protectiveMBR @ gptHeader 0x10000 2 1 0"

text \<open>Two sectors; the header puts the table at LBA \<open>2 ^ 54\<close>.\<close>

definition gpt_huge_lba :: "byte list" where
  "gpt_huge_lba = protectiveMBR @ gptHeader 0x10000 0x40000000000000 128 128"

text \<open>Two sectors; the header announces 65536 entries of 65536 bytes at LBA 2.\<close>

definition gpt_wrapped_table :: "byte list" where
  "gpt_wrapped_table = protectiveMBR @ gptHeader 0x10000 2 65536 65536"

text \<open>The sizes in GB that the rows of the tool's MBR listing carry.\<close>

fun mbr_size_of_event :: "event \<Rightarrow> rat list" where
  "mbr_size_of_event (Printf fmt [I n, S st, B ty, U32 a, F g, S d]) = [g]"
| "mbr_size_of_event _ = []"

definition cli_mbr_sizes :: "event list \<Rightarrow> rat list" where
  "cli_mbr_sizes out = concat (map mbr_size_of_event out)"

section \<open>Lemmas about the model\<close>

declare mbrLoop.simps [simp del] allZeroLoop.simps [simp del] nameLoop.simps [simp del]
  gptLoop.simps [simp del] cli_mbrLoop.simps [simp del] cli_nameLoop.simps [simp del]
  cli_gptLoop.simps [simp del] roundShift.simps [simp del] decimal.simps [simp del]

lemma golen_buffer: "golen (buffer bs) = int (length bs)"
  by (simp add: golen_def buffer_def)


lemma index_buffer:
  "index (buffer bs) i = (if 0 \<le> i \<and> i < int (length bs) then Some (bs ! nat i) else None)"
  by (simp add: index_def golen_def buffer_def)

lemma index_slice:
  "index \<lparr>s_arr = a, s_off = k, s_len = n\<rparr> i =
     (if 0 \<le> i \<and> i < int n then Some (a ! (k + nat i)) else None)"
  by (simp add: index_def golen_def)

lemma reslice_buffer:
  "reslice (buffer bs) lo hi =
     (if 0 \<le> lo \<and> lo \<le> hi \<and> hi \<le> int (length bs)
      then Some \<lparr>s_arr = bs, s_off = nat lo, s_len = nat (hi - lo)\<rparr> else None)"
  by (simp add: reslice_def gocap_def buffer_def)

lemma reslice_slice:
  "reslice \<lparr>s_arr = a, s_off = k, s_len = n\<rparr> lo hi =
     (if 0 \<le> lo \<and> lo \<le> hi \<and> hi \<le> int (length a) - int k
      then Some \<lparr>s_arr = a, s_off = k + nat lo, s_len = nat (hi - lo)\<rparr> else None)"
  by (simp add: reslice_def gocap_def)

lemma Uint16_slice:
  "2 \<le> n \<Longrightarrow> Uint16 \<lparr>s_arr = a, s_off = k, s_len = n\<rparr> = Some (u16_at a k)"
  by (simp add: Uint16_def index_slice u16_at_def)

lemma Uint32_slice:
  "4 \<le> n \<Longrightarrow> Uint32 \<lparr>s_arr = a, s_off = k, s_len = n\<rparr> = Some (u32_at a k)"
  by (simp add: Uint32_def index_slice u32_at_def)

lemma Uint64_slice:
  "8 \<le> n \<Longrightarrow> Uint64 \<lparr>s_arr = a, s_off = k, s_len = n\<rparr> = Some (u64_at a k)"
  by (simp add: Uint64_def index_slice u64_at_def)

lemma mbrSlot_buffer:
  assumes "512 \<le> length bs" "0 \<le> i" "i < 4"
  shows "mbrSlot (buffer bs) i =
    Some (if bs ! nat (450 + i * 16) \<noteq> 0
          then Some (PartitionInfo0
            \<lparr>Number := i + 1,
             Status := (if bs ! nat (446 + i * 16) = 0x80 then ''Active'' else ''Inactive''),
             Type := ''0x'' @ fmt_02X (bs ! nat (450 + i * 16)),
             StartLBA := ucast (u32_at bs (nat (454 + i * 16))),
             SizeGB := float64 (uint (u32_at bs (nat (458 + i * 16)) * 512)) / (1024 * 1024 * 1024),
             Description := getMBRTypeDescription (bs ! nat (450 + i * 16))\<rparr>)
          else None)"
  using assms
  by (simp add: mbrSlot_def Let_def index_buffer reslice_buffer Uint32_slice algebra_simps)

lemma file_Read_open:
  "512 \<le> length bs \<Longrightarrow>
   file_Read (open_file maxoff bs) 512 =
     ((take 512 bs, 512, False), \<lparr>f_data = bs, f_pos = 512, f_max = maxoff\<rparr>)"
  by (simp add: file_Read_def open_file_def Let_def min_def)

lemma u16_at_take: "k + 2 \<le> n \<Longrightarrow> u16_at (take n bs) k = u16_at bs k"
  by (simp add: u16_at_def)


lemma int64_id: "- (2 ^ 63) \<le> k \<Longrightarrow> k < 2 ^ 63 \<Longrightarrow> int64 k = k"
  unfolding int64_def by (rule signed_take_bit_int_eq_self)

lemma unat_succ32: "(i :: uint32) < n \<Longrightarrow> unat (i + 1) = unat i + 1"
proof -
  assume "i < n"
  then have "unat i < unat n"
    by (simp add: word_less_nat_alt)
  moreover have "unat n < 2 ^ 32"
    using unsigned_less [of n, where 'a = nat] by simp
  ultimately have "unat i + 1 < 2 ^ 32"
    by linarith
  then show ?thesis
    by (simp add: unat_word_ariths)
qed


text \<open>No wrap-around when the whole table lies inside a buffer shorter than 4 GiB.\<close>

lemma entry_in_table:
  fixes i n s :: uint32
  assumes "0 \<le> off" "off + uint n * uint s \<le> L" "L < 2 ^ 32" "i < n"
  shows "uint (i * s) = uint i * uint s"
    and "int64 (off + uint (i * s)) = off + uint i * uint s"
    and "int64 (int64 (off + uint (i * s)) + uint s) = off + uint i * uint s + uint s"
    and "off + uint i * uint s + uint s \<le> L"
proof -
  have "uint i + 1 \<le> uint n"
    using assms(4) by (simp add: word_less_def)
  then have "(uint i + 1) * uint s \<le> uint n * uint s"
    by (intro mult_right_mono) simp_all
  then have le: "uint i * uint s + uint s \<le> uint n * uint s"
    by (simp add: algebra_simps)
  then show 4: "off + uint i * uint s + uint s \<le> L"
    using assms by linarith
  have nn: "0 \<le> uint i * uint s" "0 \<le> uint s"
    by simp_all
  have L: "L < 4294967296"
    using assms(3) by simp
  have lt: "uint i * uint s < 4294967296"
    using 4 assms(1) nn L by linarith
  show 1: "uint (i * s) = uint i * uint s"
    using lt nn by (simp add: uint_word_ariths)
  have a: "off + uint i * uint s < 9223372036854775808"
    using 4 assms(1) nn L by linarith
  have b: "off + uint i * uint s + uint s < 9223372036854775808"
    using 4 assms(1) nn L by linarith
  have c: "- 9223372036854775808 \<le> off + uint i * uint s"
    using assms(1) nn by linarith
  have d: "- 9223372036854775808 \<le> off + uint i * uint s + uint s"
    using assms(1) nn by linarith
  show "int64 (off + uint (i * s)) = off + uint i * uint s"
    using a c by (simp add: 1 int64_id)
  then show "int64 (int64 (off + uint (i * s)) + uint s) = off + uint i * uint s + uint s"
    using b d by (simp add: int64_id)
qed

lemma allZeroLoop_True:
  assumes "16 \<le> s_len pb" "\<forall>m<16. s_arr pb ! (s_off pb + m) = 0" "0 \<le> j"
  shows "allZeroLoop pb j = Some True"
  using assms
proof (induction pb j rule: allZeroLoop.induct)
  case (1 partBytes j)
  show ?case
  proof (cases "j < 16")
    case True
    then have "nat j < 16" using 1(4) by simp
    then have "index partBytes j = Some 0"
      using 1(2,3,4) True by (simp add: index_def golen_def)
    then show ?thesis
      using 1 True by (subst allZeroLoop.simps) simp
  next
    case False
    then show ?thesis by (subst allZeroLoop.simps) simp
  qed
qed

lemma gptEntry_zero_guid:
  assumes "16 \<le> s_len pb" "\<forall>m<16. s_arr pb ! (s_off pb + m) = 0"
  shows "gptEntry pb cnt = Some None" "cli_gptEntry pb cnt = Some None"
  using allZeroLoop_True [OF assms, of 0] by (simp_all add: gptEntry_def cli_gptEntry_def)

lemma gptLoop_skip:
  assumes "i < n"
    and "0 \<le> int64 (off + uint (i * s))"
    and "int64 (off + uint (i * s)) + uint s \<le> int (length bs)"
    and "length bs < 2 ^ 63"
    and "16 \<le> uint s"
    and "\<forall>m<16. bs ! (nat (int64 (off + uint (i * s))) + m) = 0"
  shows "gptLoop (buffer bs) n s off i cnt acc = gptLoop (buffer bs) n s off (i + 1) cnt acc"
proof -
  let ?eo = "int64 (off + uint (i * s))"
  let ?pb = "\<lparr>s_arr = bs, s_off = nat ?eo, s_len = nat (uint s)\<rparr>"
  have "0 \<le> uint s"
    by simp
  moreover have "int (length bs) < 9223372036854775808"
    using assms(4) by simp
  ultimately have "?eo + uint s < 9223372036854775808" "- 9223372036854775808 \<le> ?eo + uint s"
    using assms(2,3) by - linarith+
  then have "?eo + uint s < 2 ^ 63" "- (2 ^ 63) \<le> ?eo + uint s"
    by simp_all
  then have hi: "int64 (?eo + uint s) = ?eo + uint s"
    by (rule int64_id [rotated])
  have cut: "reslice (buffer bs) ?eo (?eo + uint s) = Some ?pb"
    using assms(2,3) by (simp add: reslice_buffer)
  have us: "uint s = int (unat s)"
    by (rule uint_nat)
  have "16 \<le> unat s"
    using assms(5) unfolding us by linarith
  then have "gptEntry ?pb cnt = Some None"
    using assms(6) by (intro gptEntry_zero_guid) simp_all
  then show ?thesis
    using assms(1,3) by (subst gptLoop.simps) (simp add: hi cut golen_buffer Let_def)
qed

lemma gptLoop_all_zero:
  fixes i n s :: uint32
  assumes "0 \<le> off" "off + uint n * uint s \<le> int (length bs)" "length bs < 2 ^ 32"
    and "\<forall>j. unat i \<le> j \<and> j < unat n \<longrightarrow>
           16 \<le> unat s \<and> (\<forall>m<16. bs ! (nat off + j * unat s + m) = 0)"
    and "k = unat n - unat i"
  shows "gptLoop (buffer bs) n s off i cnt acc = Some acc"
  using assms(4,5)
proof (induction k arbitrary: i)
  case 0
  then have "\<not> i < n"
    by (simp add: word_less_nat_alt)
  then show ?case
    by (subst gptLoop.simps) simp
next
  case (Suc k)
  then have lt: "i < n"
    by (simp add: word_less_nat_alt)
  have L: "int (length bs) < 2 ^ 32"
    using assms(3) by simp
  note e = entry_in_table [OF assms(1,2) L lt]
  have z: "16 \<le> unat s" "\<forall>m<16. bs ! (nat off + unat i * unat s + m) = 0"
    using Suc.prems(1) [rule_format, of "unat i"] lt by (simp_all add: word_less_nat_alt)
  have eo: "nat (int64 (off + uint (i * s))) = nat off + unat i * unat s"
    using assms(1) unfolding e(2) by (simp add: nat_add_distrib nat_mult_distrib)
  have big: "length bs < 2 ^ 63"
    using assms(3) by (rule less_trans) simp
  have step: "gptLoop (buffer bs) n s off i cnt acc = gptLoop (buffer bs) n s off (i + 1) cnt acc"
  proof (rule gptLoop_skip [OF lt _ _ big])
    show "0 \<le> int64 (off + uint (i * s))"
      using assms(1) by (simp add: e(2))
    show "int64 (off + uint (i * s)) + uint s \<le> int (length bs)"
      using e(4) by (simp add: e(2))
    have "uint s = int (unat s)"
      by (rule uint_nat)
    then show "16 \<le> uint s"
      using z(1) by linarith
    show "\<forall>m<16. bs ! (nat (int64 (off + uint (i * s))) + m) = 0"
      using z(2) by (simp add: eo)
  qed
  have "gptLoop (buffer bs) n s off (i + 1) cnt acc = Some acc"
  proof (rule Suc.IH)
    show "\<forall>j. unat (i + 1) \<le> j \<and> j < unat n \<longrightarrow>
           16 \<le> unat s \<and> (\<forall>m<16. bs ! (nat off + j * unat s + m) = 0)"
      using Suc.prems(1) unfolding unat_succ32 [OF lt] by (metis Suc_eq_plus1 Suc_leD)
    show "k = unat n - unat (i + 1)"
      using Suc.prems(2) by (simp add: unat_succ32 [OF lt])
  qed
  with step show ?case by simp
qed

lemma sint_table_offset:
  fixes lba :: uint64
  assumes "uint lba * 512 < 2 ^ 63"
  shows "sint (lba * 512) = uint lba * 512"
proof -
  have "uint lba * 512 < 2 ^ 64"
    using assms by simp
  moreover have "0 \<le> uint lba * 512"
    by simp
  ultimately have u: "uint (lba * 512) = uint lba * 512"
    by (simp add: uint_word_ariths)
  have "sint (lba * 512) = signed_take_bit 63 (uint (lba * 512))"
    by (simp add: sint_uint)
  also have "\<dots> = uint lba * 512"
    unfolding u
  proof (rule signed_take_bit_int_eq_self)
    have "(0::int) \<le> uint lba * 512"
      by simp
    then show "- (2 ^ 63) \<le> uint lba * 512"
      by (rule order_trans [rotated]) simp
    show "uint lba * 512 < 2 ^ 63"
      by (rule assms)
  qed
  finally show ?thesis .
qed

lemma readGPT_header:
  assumes "1024 \<le> length bs"
  shows "readGPTPartitions (buffer bs) =
    (if map (\<lambda>b. char_of (uint b)) (take 8 (drop 512 bs)) \<noteq> ''EFI PART'' then
       Some [PartitionInfo0
            \<lparr>Number := 1, Info := ''Invalid GPT signature in header'',
             Note := ''GPT structure may be corrupted''\<rparr>]
     else if int (length bs) <
        int64 (sint (u64_at bs 584 * 512) + uint (u32_at bs 592 * u32_at bs 596)) then
       Some [PartitionInfo0
              \<lparr>Number := 1,
               Info := ''GPT detected (Rev '' @ fmt_d (uint (drop_bit 16 (u32_at bs 520))) @ ''.''
                       @ fmt_d (uint (u32_at bs 520 AND 0xFFFF)) @ '', ''
                       @ fmt_d (uint (u32_at bs 592)) @ '' partitions)'',
               Note := ''Need at least ''
                       @ fmt_d (int64 (sint (u64_at bs 584 * 512) + uint (u32_at bs 592 * u32_at bs 596)))
                       @ '' bytes to read all partition entries''\<rparr>]
     else gptLoop (buffer bs) (u32_at bs 592) (u32_at bs 596) (sint (u64_at bs 584 * 512)) 0 0 []
          \<bind> (\<lambda>partitions. if partitions = [] then
              Some [PartitionInfo0
                \<lparr>Number := 1,
                 Info := ''GPT structure valid (Rev '' @ fmt_d (uint (drop_bit 16 (u32_at bs 520)))
                         @ ''.'' @ fmt_d (uint (u32_at bs 520 AND 0xFFFF)) @ '')'',
                 Note := ''No active partitions found in partition table''\<rparr>]
            else Some partitions))"
  using assms
  by (simp add: readGPTPartitions_def golen_buffer reslice_buffer reslice_slice Uint32_slice
      Uint64_slice gostring_def bytes_of_def GPT_SIGNATURE_def Let_def)


lemma allZeroLoop_False:
  assumes "allZeroLoop pb j = Some False" "0 \<le> j"
  shows "\<exists>m<16. m < s_len pb \<and> s_arr pb ! (s_off pb + m) \<noteq> 0"
  using assms
proof (induction pb j rule: allZeroLoop.induct)
  case (1 partBytes j)
  from "1.prems"(1) have lt: "j < 16"
    by (subst (asm) allZeroLoop.simps) (simp split: if_splits)
  from "1.prems"(1) lt obtain b where b: "index partBytes j = Some b"
    by (subst (asm) allZeroLoop.simps) (auto split: Option.bind_splits)
  then have rng: "nat j < s_len partBytes" and val: "b = s_arr partBytes ! (s_off partBytes + nat j)"
    using "1.prems"(2) by (auto simp: index_def golen_def split: if_splits)
  show ?case
  proof (cases "b = 0")
    case True
    then have "allZeroLoop partBytes (j + 1) = Some False"
      using "1.prems"(1) lt b by (subst (asm) allZeroLoop.simps) simp
    then show ?thesis
      using "1.IH" [OF lt b] True "1.prems"(2) by simp
  next
    case False
    then show ?thesis
      using rng val lt "1.prems"(2) by (intro exI [of _ "nat j"]) simp
  qed
qed

lemma gptEntry_slice:
  "gptEntry \<lparr>s_arr = bs, s_off = k, s_len = m\<rparr> cnt =
     (case allZeroLoop \<lparr>s_arr = bs, s_off = k, s_len = m\<rparr> 0 of
        None \<Rightarrow> None
      | Some True \<Rightarrow> Some None
      | Some False \<Rightarrow>
          if k + 48 \<le> length bs then
            (case nameLoop \<lparr>s_arr = bs, s_off = k, s_len = m\<rparr> 56 [] of
               None \<Rightarrow> None
             | Some nm \<Rightarrow>
                 Some (Some (PartitionInfo0
                   \<lparr>Number := cnt + 1, StartLBA := u64_at bs (k + 32),
                    EndLBA := u64_at bs (k + 40),
                    SizeGB := float64 (uint ((u64_at bs (k + 40) - u64_at bs (k + 32) + 1) * 512))
                              / (1024 * 1024 * 1024),
                    Name := (if nm = [] then ''Unnamed'' else nm)\<rparr>)))
          else None)"
  by (simp add: gptEntry_def reslice_slice Uint64_slice Let_def split: option.splits bool.splits)

lemma gptEntry_record:
  assumes "gptEntry \<lparr>s_arr = bs, s_off = k, s_len = m\<rparr> cnt = Some (Some p)"
  shows "k + 48 \<le> length bs \<and> (\<exists>m'<16. bs ! (k + m') \<noteq> 0) \<and>
         StartLBA p = u64_at bs (k + 32) \<and> EndLBA p = u64_at bs (k + 40) \<and>
         Info p = [] \<and> Number p = cnt + 1 \<and> Name p \<noteq> []"
proof -
  let ?pb = "\<lparr>s_arr = bs, s_off = k, s_len = m\<rparr>"
  from assms have az: "allZeroLoop ?pb 0 = Some False"
    unfolding gptEntry_slice by (simp split: option.splits bool.splits if_splits)
  then have nz: "\<exists>m'<16. bs ! (k + m') \<noteq> 0"
    using allZeroLoop_False [OF az] by auto
  from assms az show ?thesis
    unfolding gptEntry_slice using nz
    by (auto simp: PartitionInfo0_def split: option.splits if_splits)
qed

lemma gptLoop_records:
  assumes "gptLoop (buffer bs) n s off i cnt acc = Some acc'" "k = unat n - unat i"
  shows "\<exists>W. acc' = acc @ W \<and> (\<forall>p\<in>set W. is_entry_record bs n s off p)"
  using assms
proof (induction k arbitrary: i cnt acc)
  case 0
  then have "\<not> i < n"
    by (simp add: word_less_nat_alt)
  then have "acc' = acc"
    using "0.prems"(1) by (subst (asm) gptLoop.simps) simp
  then show ?case by simp
next
  case (Suc k)
  then have lt: "i < n"
    by (simp add: word_less_nat_alt)
  have k: "k = unat n - unat (i + 1)"
    using Suc.prems(2) by (simp add: unat_succ32 [OF lt])
  let ?eo = "int64 (off + uint (i * s))"
  let ?hi = "int64 (?eo + uint s)"
  show ?case
  proof (cases "?hi \<le> int (length bs)")
    case False
    then have "acc' = acc"
      using Suc.prems(1) by (subst (asm) gptLoop.simps) (simp add: golen_buffer)
    then show ?thesis by simp
  next
    case True
    from Suc.prems(1) lt True obtain pb r where
      pb: "reslice (buffer bs) ?eo ?hi = Some pb" and r: "gptEntry pb cnt = Some r" and
      rest: "(case r of
           Some part \<Rightarrow> gptLoop (buffer bs) n s off (i + 1) (cnt + 1) (acc @ [part])
         | None \<Rightarrow> gptLoop (buffer bs) n s off (i + 1) cnt acc) = Some acc'"
      by (subst (asm) gptLoop.simps) (auto simp: golen_buffer Let_def split: Option.bind_splits)
    from pb have eo: "0 \<le> ?eo" and
      pb': "pb = \<lparr>s_arr = bs, s_off = nat ?eo, s_len = nat (?hi - ?eo)\<rparr>"
      by (auto simp: reslice_buffer split: if_splits)
    show ?thesis
    proof (cases r)
      case None
      with rest have "gptLoop (buffer bs) n s off (i + 1) cnt acc = Some acc'"
        by simp
      from Suc.IH [OF this k] show ?thesis .
    next
      case (Some p)
      with rest have "gptLoop (buffer bs) n s off (i + 1) (cnt + 1) (acc @ [p]) = Some acc'"
        by simp
      from Suc.IH [OF this k] obtain W where
        W: "acc' = (acc @ [p]) @ W" "\<forall>p\<in>set W. is_entry_record bs n s off p"
        by blast
      from r Some pb' have "gptEntry \<lparr>s_arr = bs, s_off = nat ?eo, s_len = nat (?hi - ?eo)\<rparr> cnt = Some (Some p)"
        by simp
      note rec = gptEntry_record [OF this]
      have "\<exists>j k. j < n \<and> int k = int64 (off + uint (j * s)) \<and> k + 48 \<le> length bs \<and>
        (\<exists>m<16. bs ! (k + m) \<noteq> 0) \<and>
        StartLBA p = u64_at bs (k + 32) \<and> EndLBA p = u64_at bs (k + 40)"
      proof (rule exI [of _ i], rule exI [of _ "nat ?eo"], intro conjI)
        show "i < n" by (rule lt)
        show "int (nat ?eo) = ?eo" using eo by simp
      qed (use rec in simp_all)
      with rec have "is_entry_record bs n s off p"
        unfolding is_entry_record_def by simp
      with W show ?thesis
        by (intro exI [of _ "p # W"]) simp
    qed
  qed
qed
















lemma cli_rows_append: "cli_rows (xs @ ys) = cli_rows xs @ cli_rows ys"
  by (simp add: cli_rows_def)






lemma readMBRPartitions_total:
  assumes "512 \<le> length bs"
  shows "\<exists>ps. readMBRPartitions (buffer bs) = Some ps"
  using assms
  by (simp add: readMBRPartitions_def mbrLoop.simps [of _ 0] mbrLoop.simps [of _ 1]
      mbrLoop.simps [of _ 2] mbrLoop.simps [of _ 3] mbrLoop.simps [of _ 4] mbrSlot_buffer)

text \<open>
  A buffer shorter than 4 GiB that holds the whole table: the table offset is not negative
  and the check of the required size passes.
\<close>

lemma no_wrap_in_table:
  assumes "length bs < 2 ^ 32"
    and "uint (u64_at bs 584) * 512 + uint (u32_at bs 592) * uint (u32_at bs 596)
           \<le> int (length bs)"
  shows "sint (u64_at bs 584 * 512) = uint (u64_at bs 584) * 512"
    and "\<not> int (length bs)
           < int64 (sint (u64_at bs 584 * 512) + uint (u32_at bs 592 * u32_at bs 596))"
proof -
  let ?lba = "u64_at bs 584" and ?n = "u32_at bs 592" and ?s = "u32_at bs 596"
  have L: "int (length bs) < 4294967296"
    using assms(1) by simp
  have nn: "0 \<le> uint ?n * uint ?s" "0 \<le> uint ?lba * 512"
    by simp_all
  have "uint ?lba * 512 < 9223372036854775808"
    using assms(2) L nn by linarith
  then show off: "sint (?lba * 512) = uint ?lba * 512"
    by (intro sint_table_offset) simp
  have "uint ?n * uint ?s < 4294967296"
    using assms(2) L nn by linarith
  then have prod: "uint (?n * ?s) = uint ?n * uint ?s"
    using nn by (simp add: uint_word_ariths)
  have "- 9223372036854775808 \<le> uint ?lba * 512 + uint ?n * uint ?s"
    using nn by linarith
  moreover have "uint ?lba * 512 + uint ?n * uint ?s < 9223372036854775808"
    using assms(2) L by linarith
  ultimately have "int64 (uint ?lba * 512 + uint ?n * uint ?s) = uint ?lba * 512 + uint ?n * uint ?s"
    by (intro int64_id) simp_all
  then show "\<not> int (length bs) < int64 (sint (?lba * 512) + uint (?n * ?s))"
    using assms(2) by (simp add: off prod)
qed

section \<open>The claims\<close>

subsection \<open>C1: bounds of the GPT reader\<close>

text \<open>
  Claim C1: for every buffer classified as GPT, every byte offset derived from the header
  fields is checked against the length of the buffer before a byte is read there, so that
  \<open>readGPTPartitions\<close> never indexes outside the buffer, whatever the header says (a
  huge table LBA, a huge entry count, an entry size below 128).

  The reader does test the end of each entry against the length of the buffer, and the
  name loop tests the length of the entry.  The scan of the type GUID and the two LBA
  fields do not, and a table offset that is negative as an \<open>int\<close> passes both tests.  With
  an entry size of 0 the scan reads \<open>partBytes[0]\<close> of an empty slice; with the table at
  LBA \<open>2 ^ 54\<close> the offset is \<open>- 2 ^ 63\<close> and the slice expression gets a negative bound.
  Both calls end in a run-time panic, and so does the call of \<open>analyzeDiskImage\<close>.
\<close>

theorem gpt_reader_panics_on_header_values:
  "length gpt_entry_size_0 = 1024 \<and> u32_at gpt_entry_size_0 596 = 0 \<and>
   readGPTPartitions (buffer gpt_entry_size_0) = None \<and>
   analyzeDiskImage (buffer gpt_entry_size_0) ''disk.img'' = None \<and>
   length gpt_huge_lba = 1024 \<and> u64_at gpt_huge_lba 584 = 0x40000000000000 \<and>
   readGPTPartitions (buffer gpt_huge_lba) = None"
  by code_simp

subsection \<open>C2: the detector\<close>

text \<open>
  Claim C2: for every input of 512 bytes or more whose bytes 510 and 511, read little
  endian, are \<open>0xAA55\<close>, the image is classified as GPT if and only if the byte at offset
  450 is \<open>0xEE\<close>, and as MBR otherwise; for every input where they are not \<open>0xAA55\<close>, the
  analysis stops with the invalid-signature error and no partition record is produced.

  For the binding: a result, when there is one, has no error, the table type follows byte
  450 and the partitions are those of the reader chosen; the call can only fail to return
  inside the GPT reader.  For the tool, on any file system: it exits with status 0 and its
  third line of output names the table type.  Without the signature the binding returns
  the error alone and the tool prints it and exits with status 1.
\<close>

theorem detector_classification:
  assumes "512 \<le> length bs"
  shows "(u16_at bs 510 = 0xAA55 \<longrightarrow>
            (\<forall>r. analyzeDiskImage (buffer bs) filename = Some r \<longrightarrow>
               Error r = [] \<and>
               TableType r = (if bs ! 450 = 0xEE then ''GPT'' else ''MBR'') \<and>
               Some (Partitions r) = (if bs ! 450 = 0xEE then readGPTPartitions (buffer bs)
                                      else readMBRPartitions (buffer bs))) \<and>
            (analyzeDiskImage (buffer bs) filename = None \<longrightarrow>
               bs ! 450 = 0xEE \<and> readGPTPartitions (buffer bs) = None) \<and>
            (\<forall>out st. cli_main maxoff filename bs = Some (out, st) \<longrightarrow>
               st = 0 \<and>
               out ! 2 = Println (if bs ! 450 = 0xEE then ''Partition Table Type: GPT''
                                  else ''Partition Table Type: MBR''))) \<and>
         (u16_at bs 510 \<noteq> 0xAA55 \<longrightarrow>
            analyzeDiskImage (buffer bs) filename =
              Some \<lparr>Filename = filename, TableType = [], Partitions = [],
                    Error = ''Invalid MBR signature'', GPTRevision = []\<rparr> \<and>
            cli_main maxoff filename bs = Some ([Println ''Invalid MBR signature''], 1))"
proof -
  obtain ps where ps: "readMBRPartitions (buffer bs) = Some ps"
    using readMBRPartitions_total [OF assms] by blast
  have wasm_ok: "u16_at bs 510 = 0xAA55 \<Longrightarrow> analyzeDiskImage (buffer bs) filename = Some r \<Longrightarrow>
      Error r = [] \<and> TableType r = (if bs ! 450 = 0xEE then ''GPT'' else ''MBR'') \<and>
      Some (Partitions r) = (if bs ! 450 = 0xEE then readGPTPartitions (buffer bs)
                             else readMBRPartitions (buffer bs))" for r
    using assms
    by (auto simp: analyzeDiskImage_def Let_def golen_buffer index_buffer reslice_buffer
        Uint16_slice split: if_splits Option.bind_splits)
  have wasm_none: "u16_at bs 510 = 0xAA55 \<Longrightarrow> analyzeDiskImage (buffer bs) filename = None \<Longrightarrow>
      bs ! 450 = 0xEE \<and> readGPTPartitions (buffer bs) = None"
    using assms ps
    by (auto simp: analyzeDiskImage_def Let_def golen_buffer index_buffer reslice_buffer
        Uint16_slice split: if_splits Option.bind_splits)
  have cli_ok: "u16_at bs 510 = 0xAA55 \<Longrightarrow> cli_main maxoff filename bs = Some (out, st) \<Longrightarrow>
      st = 0 \<and> out ! 2 = Println (if bs ! 450 = 0xEE then ''Partition Table Type: GPT''
                                  else ''Partition Table Type: MBR'')" for out st
    using assms
    apply (simp add: cli_main_def Let_def file_Read_open index_buffer reslice_buffer
        Uint16_slice u16_at_take)
    apply (auto split: if_splits Option.bind_splits)
    done
  have bad: "u16_at bs 510 \<noteq> 0xAA55 \<Longrightarrow>
      analyzeDiskImage (buffer bs) filename =
        Some \<lparr>Filename = filename, TableType = [], Partitions = [],
              Error = ''Invalid MBR signature'', GPTRevision = []\<rparr> \<and>
      cli_main maxoff filename bs = Some ([Println ''Invalid MBR signature''], 1)"
    using assms
    by (simp add: analyzeDiskImage_def cli_main_def Let_def file_Read_open golen_buffer
        reslice_buffer Uint16_slice u16_at_take)
  show ?thesis
    using wasm_ok wasm_none cli_ok bad by blast
qed

text \<open>
  The theorem at the boot sector with a Linux partition, at a protective boot sector and at a sector
  without signature.
\<close>

theorem detector_classification_witness:
  "512 \<le> length mbr_linux \<and> u16_at mbr_linux 510 = 0xAA55 \<and> mbr_linux ! 450 \<noteq> 0xEE \<and>
   map_option TableType (analyzeDiskImage (buffer mbr_linux) ''disk.img'') = Some ''MBR'' \<and>
   map_option (\<lambda>r. r ! 2) (map_option fst (cli_main 9223372036854775807 ''disk.img'' mbr_linux))
     = Some (Println ''Partition Table Type: MBR'') \<and>
   512 \<le> length protectiveMBR \<and> u16_at protectiveMBR 510 = 0xAA55 \<and> protectiveMBR ! 450 = 0xEE \<and>
   map_option TableType (analyzeDiskImage (buffer protectiveMBR) ''disk.img'') = Some ''GPT'' \<and>
   map_option (\<lambda>r. r ! 2) (map_option fst (cli_main 9223372036854775807 ''disk.img'' protectiveMBR))
     = Some (Println ''Partition Table Type: GPT'') \<and>
   512 \<le> length no_signature \<and> u16_at no_signature 510 \<noteq> 0xAA55 \<and>
   map_option Partitions (analyzeDiskImage (buffer no_signature) ''disk.img'') = Some [] \<and>
   cli_main 9223372036854775807 ''disk.img'' no_signature = Some ([Println ''Invalid MBR signature''], 1)"
proof -
  have l1: "512 \<le> length mbr_linux" and l2: "512 \<le> length protectiveMBR"
    and l3: "512 \<le> length no_signature"
    by code_simp+
  have s1: "u16_at mbr_linux 510 = 0xAA55" and t1: "mbr_linux ! 450 \<noteq> 0xEE"
    and s2: "u16_at protectiveMBR 510 = 0xAA55" and t2: "protectiveMBR ! 450 = 0xEE"
    and s3: "u16_at no_signature 510 \<noteq> 0xAA55"
    by code_simp+
  have r1: "analyzeDiskImage (buffer mbr_linux) ''disk.img'' \<noteq> None"
    and c1: "cli_main 9223372036854775807 ''disk.img'' mbr_linux \<noteq> None"
    and r2: "analyzeDiskImage (buffer protectiveMBR) ''disk.img'' \<noteq> None"
    and c2: "cli_main 9223372036854775807 ''disk.img'' protectiveMBR \<noteq> None"
    by code_simp+
  note a = detector_classification [OF l1, of "''disk.img''" 9223372036854775807]
    and b = detector_classification [OF l2, of "''disk.img''" 9223372036854775807]
    and c = detector_classification [OF l3, of "''disk.img''" 9223372036854775807]
  from a s1 t1 r1 c1 have
    "map_option TableType (analyzeDiskImage (buffer mbr_linux) ''disk.img'') = Some ''MBR''"
    "map_option (\<lambda>r. r ! 2) (map_option fst (cli_main 9223372036854775807 ''disk.img'' mbr_linux))
       = Some (Println ''Partition Table Type: MBR'')"
    by auto
  moreover from b s2 t2 r2 c2 have
    "map_option TableType (analyzeDiskImage (buffer protectiveMBR) ''disk.img'') = Some ''GPT''"
    "map_option (\<lambda>r. r ! 2) (map_option fst (cli_main 9223372036854775807 ''disk.img'' protectiveMBR))
       = Some (Println ''Partition Table Type: GPT'')"
    by auto
  moreover from c s3 have
    "map_option Partitions (analyzeDiskImage (buffer no_signature) ''disk.img'') = Some []"
    "cli_main 9223372036854775807 ''disk.img'' no_signature = Some ([Println ''Invalid MBR signature''], 1)"
    by auto
  ultimately show ?thesis
    using l1 l2 l3 s1 s2 s3 t1 t2 by simp
qed

subsection \<open>C3: the size of an MBR partition\<close>

text \<open>
  Claim C3: for every MBR slot with a nonzero type byte, the size in GB of the record
  equals \<open>sizeInSectors * 512 / 1024 ^ 3\<close> exactly, for all values of \<open>sizeInSectors\<close> up to
  \<open>2 ^ 32 - 1\<close>.

  The product \<open>sizeBlocks * SECTOR_SIZE\<close> is computed in \<open>uint32\<close> before the conversion to
  float64, in the binding and in the tool alike, so it wraps from \<open>2 ^ 23\<close> sectors on.  A
  partition of \<open>0x800000\<close> sectors, which is 4 GiB, is reported with size 0.
\<close>

theorem mbr_size_wraps_at_4GiB:
  "u32_at mbr_4GiB 458 = 0x800000 \<and> (0x800000 * 512 / 1024 ^ 3 :: rat) = 4 \<and>
   map_option (map SizeGB) (readMBRPartitions (buffer mbr_4GiB)) = Some [0] \<and>
   map_option cli_mbr_sizes (cli_readMBRPartitions (buffer mbr_4GiB)) = Some [0]"
  by code_simp

text \<open>Below \<open>2 ^ 23\<close> sectors the product does not wrap and the size is exact.\<close>

lemma mbr_size_exact_below_4GiB:
  fixes sizeBlocks :: uint32
  assumes "sizeBlocks < 0x800000"
  shows "float64 (uint (sizeBlocks * 512)) / (1024 * 1024 * 1024) =
         of_int (uint sizeBlocks) * 512 / 1024 ^ 3"
proof -
  have "uint sizeBlocks < 8388608"
    using assms by (simp add: word_less_def)
  then have lt: "uint sizeBlocks * 512 < 4294967296"
    by linarith
  have nn: "0 \<le> uint sizeBlocks * 512"
    by simp
  have u: "uint (sizeBlocks * 512) = uint sizeBlocks * 512"
    using lt nn by (simp add: uint_word_ariths)
  have "roundShift (uint sizeBlocks * 512) = 0"
    using lt by (subst roundShift.simps) simp
  then have "float64 (uint sizeBlocks * 512) = of_int (uint sizeBlocks * 512)"
    by (simp add: float64_def)
  then show ?thesis
    by (simp add: u)
qed

subsection \<open>C4: start and end LBA of a GPT record\<close>

text \<open>
  Claim C4: for every GPT partition record emitted by the reader, that is for every entry
  whose type GUID is not all zero, the decoded start LBA is at most the decoded end LBA.

  The reader compares nothing: an entry that stores start 100 and end 50 is reported with
  these values.
\<close>

theorem gpt_record_start_above_end:
  "readGPTPartitions (buffer gpt_reversed) =
     Some [PartitionInfo0\<lparr>Number := 1, StartLBA := 100, EndLBA := 50,
             SizeGB := 18446744073709527040 / 1073741824, Name := ''A''\<rparr>] \<and>
   \<not> (100 :: uint64) \<le> 50"
  by code_simp

text \<open>
  Claim C4 as amended: every GPT partition record emitted by the reader holds the start
  and the end LBA of an entry of the table whose type GUID is not all zero, as the two
  64-bit little-endian fields at offsets 32 and 40 of the entry store them; the reader
  does not compare them, so start \<open>\<le>\<close> end holds for the record exactly when it holds for
  the stored fields.
\<close>

theorem gpt_record_fields_as_stored:
  assumes "1024 \<le> length bs" "readGPTPartitions (buffer bs) = Some ps" "p \<in> set ps"
    and "Info p = []"
  shows "\<exists>j k. j < u32_at bs 592 \<and>
           int k = int64 (sint (u64_at bs 584 * 512) + uint (j * u32_at bs 596)) \<and>
           k + 48 \<le> length bs \<and> (\<exists>m<16. bs ! (k + m) \<noteq> 0) \<and>
           StartLBA p = u64_at bs (k + 32) \<and> EndLBA p = u64_at bs (k + 40) \<and>
           (StartLBA p \<le> EndLBA p \<longleftrightarrow> u64_at bs (k + 32) \<le> u64_at bs (k + 40))"
proof -
  let ?n = "u32_at bs 592" and ?s = "u32_at bs 596" and ?off = "sint (u64_at bs 584 * 512)"
  from assms(2,3,4) obtain acc where
    loop: "gptLoop (buffer bs) ?n ?s ?off 0 0 [] = Some acc" and ps: "ps = acc"
    unfolding readGPT_header [OF assms(1)]
    by (auto simp: PartitionInfo0_def split: if_splits Option.bind_splits)
  from gptLoop_records [OF loop refl] ps assms(3) have "is_entry_record bs ?n ?s ?off p"
    by auto
  then show ?thesis
    unfolding is_entry_record_def by metis
qed

text \<open>The theorem at the image with one partition from LBA 34 to 2047.\<close>

theorem gpt_record_fields_as_stored_witness:
  "1024 \<le> length gpt_one \<and>
   readGPTPartitions (buffer gpt_one) =
     Some [PartitionInfo0\<lparr>Number := 1, StartLBA := 34, EndLBA := 2047,
             SizeGB := 1031168 / 1073741824, Name := ''AB''\<rparr>] \<and>
   (\<exists>j k. j < u32_at gpt_one 592 \<and>
      int k = int64 (sint (u64_at gpt_one 584 * 512) + uint (j * u32_at gpt_one 596)) \<and>
      k + 48 \<le> length gpt_one \<and> (\<exists>m<16. gpt_one ! (k + m) \<noteq> 0) \<and>
      u64_at gpt_one (k + 32) = 34 \<and> u64_at gpt_one (k + 40) = 2047)"
proof -
  let ?p = "PartitionInfo0\<lparr>Number := 1, StartLBA := 34, EndLBA := 2047,
             SizeGB := 1031168 / 1073741824, Name := ''AB''\<rparr>"
  have l: "1024 \<le> length gpt_one"
    by code_simp
  have r: "readGPTPartitions (buffer gpt_one) = Some [?p]"
    by code_simp
  have "?p \<in> set [?p]" "Info ?p = []"
    by (simp_all add: PartitionInfo0_def)
  from gpt_record_fields_as_stored [OF l r this] l r show ?thesis
    by (simp add: PartitionInfo0_def) metis
qed

subsection \<open>C5: the two readers\<close>


text \<open>
  The name loops differ too: that of the tool lacks the test for printable ASCII and keeps
  every code unit whose high byte is zero.  For an entry named by the single code unit
  \<open>0x0007\<close> the binding reports ``Unnamed'' and the tool the one-byte name \<open>0x07\<close>; the two
  rows are related by \<^const>\<open>same_row\<close>, which takes the characters outside printable ASCII
  out of the tool's name.
\<close>

lemma tool_keeps_control_character:
  "map_option wasm_rows (readGPTPartitions (buffer gpt_bell_name))
     = Some [(1, 34, 2047, 1031168 / 1073741824, ''Unnamed'')] \<and>
   map_option cli_rows (cli_readGPTPartitions (open_file 9223372036854775807 gpt_bell_name))
     = Some [(1, 34, 2047, 1031168 / 1073741824, [CHR 0x07])] \<and>
   same_row (1, 34, 2047, 1031168 / 1073741824, ''Unnamed'')
     (1, 34, 2047, 1031168 / 1073741824, [CHR 0x07])"
  by code_simp



subsection \<open>C6: a truncated entry table\<close>

text \<open>
  Claim C6: for every GPT buffer with a valid ``EFI PART'' signature whose length is
  smaller than \<open>partitionTableLBA * 512 + numPartitions * partitionEntrySize\<close>, the reader
  emits exactly one advisory record whose note contains that required byte count, and no
  partition record.

  The required size is computed with the product \<open>numPartitions * partitionEntrySize\<close> in
  \<open>uint32\<close> and the table offset read as a signed \<open>int\<close>.  A header of 65536 entries of
  65536 bytes at LBA 2 needs 4294968320 bytes; the product wraps to 0, the check asks for
  1024 bytes only, and a buffer of 1024 bytes is reported as a valid structure without
  active partitions.
\<close>

theorem truncation_check_wraps:
  "length gpt_wrapped_table = 1024 \<and>
   take 8 (drop 512 gpt_wrapped_table) = [0x45, 0x46, 0x49, 0x20, 0x50, 0x41, 0x52, 0x54] \<and>
   uint (u64_at gpt_wrapped_table 584) * 512
     + uint (u32_at gpt_wrapped_table 592) * uint (u32_at gpt_wrapped_table 596) = 4294968320 \<and>
   readGPTPartitions (buffer gpt_wrapped_table) =
     Some [PartitionInfo0
            \<lparr>Number := 1, Info := ''GPT structure valid (Rev 1.0)'',
             Note := ''No active partitions found in partition table''\<rparr>]"
  by code_simp

text \<open>
  Where neither product wraps the check is the one claimed: a buffer shorter than the
  table gets the one advisory record with the byte count.
\<close>

lemma truncated_table_advisory:
  assumes "1024 \<le> length bs"
    and "map (\<lambda>b. char_of (uint b)) (take 8 (drop 512 bs)) = ''EFI PART''"
    and "uint (u64_at bs 584) * 512 < 9223372036854775808"
    and "uint (u32_at bs 592) * uint (u32_at bs 596) < 4294967296"
    and "int (length bs)
          < uint (u64_at bs 584) * 512 + uint (u32_at bs 592) * uint (u32_at bs 596)"
    and "uint (u64_at bs 584) * 512 + uint (u32_at bs 592) * uint (u32_at bs 596)
          < 9223372036854775808"
  shows "readGPTPartitions (buffer bs) =
    Some [PartitionInfo0
            \<lparr>Number := 1,
             Info := ''GPT detected (Rev '' @ fmt_d (uint (drop_bit 16 (u32_at bs 520))) @ ''.''
                     @ fmt_d (uint (u32_at bs 520 AND 0xFFFF)) @ '', ''
                     @ fmt_d (uint (u32_at bs 592)) @ '' partitions)'',
             Note := ''Need at least ''
                     @ fmt_d (uint (u64_at bs 584) * 512
                              + uint (u32_at bs 592) * uint (u32_at bs 596))
                     @ '' bytes to read all partition entries''\<rparr>]"
proof -
  let ?lba = "u64_at bs 584" and ?n = "u32_at bs 592" and ?s = "u32_at bs 596"
  have "uint ?lba * 512 < 2 ^ 63"
    using assms(3) by simp
  then have off: "sint (?lba * 512) = uint ?lba * 512"
    by (rule sint_table_offset)
  have nn: "0 \<le> uint ?n * uint ?s" "0 \<le> uint ?lba * 512"
    by simp_all
  have prod: "uint (?n * ?s) = uint ?n * uint ?s"
    using assms(4) nn by (simp add: uint_word_ariths)
  have "- 9223372036854775808 \<le> uint ?lba * 512 + uint ?n * uint ?s"
    using nn by linarith
  then have req: "int64 (uint ?lba * 512 + uint ?n * uint ?s) = uint ?lba * 512 + uint ?n * uint ?s"
    using assms(6) by (intro int64_id) simp_all
  show ?thesis
    unfolding readGPT_header [OF assms(1)] off prod req using assms(2,5) by simp
qed

subsection \<open>C7: entries with an all-zero type GUID\<close>

text \<open>
  Claim C7: for every GPT entry whose 16-byte type GUID is all zero, the reader emits no
  record for that entry, whatever its start LBA, end LBA, attributes and name hold.

  For the loop of the binding: when entry \<open>i\<close> lies inside the buffer, is at least 16 bytes
  long and begins with 16 zero bytes, the loop goes on from entry \<open>i + 1\<close> with the same
  counter and the same records; nothing is assumed of the other bytes of the entry.  For
  the body of the tool's loop: an entry of at least 16 bytes that begins with 16 zero
  bytes prints nothing.
\<close>

theorem zero_guid_entry_skipped:
  assumes "i < n"
    and "0 \<le> int64 (off + uint (i * s))"
    and "int64 (off + uint (i * s)) + uint s \<le> int (length bs)"
    and "length bs < 2 ^ 63"
    and "16 \<le> uint s"
    and "\<forall>m<16. bs ! (nat (int64 (off + uint (i * s))) + m) = 0"
  shows "gptLoop (buffer bs) n s off i cnt acc = gptLoop (buffer bs) n s off (i + 1) cnt acc \<and>
         cli_gptEntry (buffer (take (unat s) (drop (nat (int64 (off + uint (i * s)))) bs))) cnt
           = Some None"
proof -
  let ?k = "nat (int64 (off + uint (i * s)))"
  have us: "uint s = int (unat s)"
    by (rule uint_nat)
  have s16: "16 \<le> unat s"
    using assms(5) unfolding us by linarith
  have "int ?k + int (unat s) \<le> int (length bs)"
    using assms(2,3) unfolding us by simp
  then have fits: "?k + unat s \<le> length bs"
    by linarith
  then have len: "length (take (unat s) (drop ?k bs)) = unat s"
    by auto
  have "\<forall>m<16. take (unat s) (drop ?k bs) ! m = 0"
    using assms(6) s16 fits by simp
  then have "cli_gptEntry (buffer (take (unat s) (drop ?k bs))) cnt = Some None"
    using s16 unfolding buffer_def len by (intro gptEntry_zero_guid) simp_all
  with gptLoop_skip [OF assms] show ?thesis
    by simp
qed

text \<open>
  The theorem at the first entry of the image with two entries: its type GUID is zero,
  its start LBA is 34 and its name begins with ``A''.
\<close>

theorem zero_guid_entry_skipped_witness:
  "(0 :: uint32) < 2 \<and> 0 \<le> int64 (1024 + uint (0 * 128 :: uint32)) \<and>
   int64 (1024 + uint (0 * 128 :: uint32)) + uint (128 :: uint32) \<le> int (length gpt_one) \<and>
   length gpt_one < 2 ^ 63 \<and> 16 \<le> uint (128 :: uint32) \<and>
   list_all (\<lambda>b. b = 0) (take 16 (drop 1024 gpt_one)) \<and>
   u64_at gpt_one (1024 + 32) = 34 \<and> gpt_one ! (1024 + 56) = 0x41 \<and>
   gptLoop (buffer gpt_one) 2 128 1024 0 0 [] = gptLoop (buffer gpt_one) 2 128 1024 (0 + 1) 0 []"
proof -
  have len: "length gpt_one = 1280"
    by code_simp
  have h1: "(0 :: uint32) < 2" and h5: "16 \<le> uint (128 :: uint32)"
    by simp_all
  have eo: "int64 (1024 + uint (0 * 128 :: uint32)) = 1024"
    by code_simp
  have h2: "0 \<le> int64 (1024 + uint (0 * 128 :: uint32))"
    and h3: "int64 (1024 + uint (0 * 128 :: uint32)) + uint (128 :: uint32) \<le> int (length gpt_one)"
    and h4: "length gpt_one < 2 ^ 63"
    unfolding eo len by simp_all
  have z: "list_all (\<lambda>b. b = 0) (take 16 (drop 1024 gpt_one))"
    by code_simp
  have h6: "\<forall>m<16. gpt_one ! (nat (int64 (1024 + uint (0 * 128 :: uint32))) + m) = 0"
    unfolding eo
  proof (intro allI impI)
    fix m :: nat
    assume "m < 16"
    then have "take 16 (drop 1024 gpt_one) ! m = 0"
      using z by (simp add: list_all_length len)
    then show "gpt_one ! (nat 1024 + m) = 0"
      using \<open>m < 16\<close> by (simp add: len)
  qed
  have f: "u64_at gpt_one (1024 + 32) = 34" "gpt_one ! (1024 + 56) = 0x41"
    by code_simp+
  from zero_guid_entry_skipped [OF h1 h2 h3 h4 h5 h6, of 0 "[]"] h1 h2 h3 h4 h5 z f
  show ?thesis
    by simp
qed

subsection \<open>C8: the slots of the boot sector\<close>

text \<open>
  Claim C8: for every MBR sector and every slot \<open>i\<close> from 1 to 4, a slot whose type byte is
  0 produces no record whatever its other bytes hold, and each record carries the 1-based
  index of its slot, so that skipped slots leave gaps in the numbering.

  The reader returns, and the numbers of its records are, in order, the indices of the
  slots whose type byte (at offset \<open>450 + 16 * i\<close> for the slot \<open>i + 1\<close>) is not zero.
\<close>

theorem mbr_records_carry_slot_index:
  assumes "512 \<le> length bs"
  shows "\<exists>ps. readMBRPartitions (buffer bs) = Some ps \<and>
    map Number ps =
      concat (map (\<lambda>i. if bs ! nat (450 + i * 16) \<noteq> 0 then [i + 1] else []) [0, 1, 2, 3])"
  using assms
  by (simp add: readMBRPartitions_def mbrLoop.simps [of _ 0] mbrLoop.simps [of _ 1]
      mbrLoop.simps [of _ 2] mbrLoop.simps [of _ 3] mbrLoop.simps [of _ 4] mbrSlot_buffer)

text \<open>
  The theorem at the boot sector whose first slot has type 0 and a size of 1000 sectors
  and whose third slot is the Linux partition: one record, numbered 3.
\<close>

theorem mbr_records_carry_slot_index_witness:
  "512 \<le> length mbr_linux \<and> mbr_linux ! 450 = 0 \<and> u32_at mbr_linux 458 = 1000 \<and>
   mbr_linux ! 482 = 0x83 \<and>
   (\<exists>ps. readMBRPartitions (buffer mbr_linux) = Some ps \<and> map Number ps = [3])"
proof -
  have l: "512 \<le> length mbr_linux"
    by code_simp
  have t: "mbr_linux ! 450 = 0" "mbr_linux ! 466 = 0" "mbr_linux ! 482 = 0x83"
    "mbr_linux ! 498 = 0" "u32_at mbr_linux 458 = 1000"
    by code_simp+
  from mbr_records_carry_slot_index [OF l] l t show ?thesis
    by simp
qed

subsection \<open>C9: a table without partitions\<close>

text \<open>
  Claim C9: for every GPT buffer with a valid inner header and enough data for the whole
  entry table, if every one of the \<open>numPartitions\<close> entries has an all-zero type GUID, the
  result contains exactly one advisory record, which says that no active partitions were
  found and names the revision of the header, and carries no error.

  The buffer is one the binding can hold, shorter than 4 GiB; an entry has a type GUID,
  so it is at least 16 bytes long.
\<close>

theorem no_partitions_advisory:
  assumes "1024 \<le> length bs" "length bs < 2 ^ 32"
    and "u16_at bs 510 = 0xAA55" "bs ! 450 = 0xEE"
    and "map (\<lambda>b. char_of (uint b)) (take 8 (drop 512 bs)) = ''EFI PART''"
    and "uint (u64_at bs 584) * 512 + uint (u32_at bs 592) * uint (u32_at bs 596)
           \<le> int (length bs)"
    and "\<forall>j<unat (u32_at bs 592). 16 \<le> unat (u32_at bs 596) \<and>
           (\<forall>m<16. bs ! (unat (u64_at bs 584) * 512 + j * unat (u32_at bs 596) + m) = 0)"
  shows "analyzeDiskImage (buffer bs) filename =
    Some \<lparr>Filename = filename, TableType = ''GPT'',
          Partitions = [PartitionInfo0
            \<lparr>Number := 1,
             Info := ''GPT structure valid (Rev '' @ fmt_d (uint (drop_bit 16 (u32_at bs 520)))
                     @ ''.'' @ fmt_d (uint (u32_at bs 520 AND 0xFFFF)) @ '')'',
             Note := ''No active partitions found in partition table''\<rparr>],
          Error = [], GPTRevision = []\<rparr>"
proof -
  let ?lba = "u64_at bs 584" and ?n = "u32_at bs 592" and ?s = "u32_at bs 596"
  note nw = no_wrap_in_table [OF assms(2,6)]
  have noff: "nat (uint ?lba * 512) = unat ?lba * 512"
    by (simp add: nat_mult_distrib)
  have loop: "gptLoop (buffer bs) ?n ?s (sint (?lba * 512)) 0 0 [] = Some []"
    unfolding nw(1)
  proof (rule gptLoop_all_zero [OF _ _ assms(2) _ refl])
    show "0 \<le> uint ?lba * 512"
      by simp
    show "uint ?lba * 512 + uint ?n * uint ?s \<le> int (length bs)"
      by (rule assms(6))
    show "\<forall>j. unat (0 :: uint32) \<le> j \<and> j < unat ?n \<longrightarrow> 16 \<le> unat ?s \<and>
        (\<forall>m<16. bs ! (nat (uint ?lba * 512) + j * unat ?s + m) = 0)"
      using assms(7) unfolding noff by simp
  qed
  have gpt: "readGPTPartitions (buffer bs) = Some [PartitionInfo0
            \<lparr>Number := 1,
             Info := ''GPT structure valid (Rev '' @ fmt_d (uint (drop_bit 16 (u32_at bs 520)))
                     @ ''.'' @ fmt_d (uint (u32_at bs 520 AND 0xFFFF)) @ '')'',
             Note := ''No active partitions found in partition table''\<rparr>]"
    unfolding readGPT_header [OF assms(1)] using assms(5) nw(2) by (simp add: loop)
  show ?thesis
    using assms(1,3,4)
    by (simp add: analyzeDiskImage_def Let_def golen_buffer index_buffer reslice_buffer
        Uint16_slice gpt)
qed

text \<open>
  The theorem at the image with two unused entries, the first of which has start, end and
  name fields that are not zero.
\<close>

theorem no_partitions_advisory_witness:
  "1024 \<le> length gpt_unused \<and> length gpt_unused < 2 ^ 32 \<and>
   u16_at gpt_unused 510 = 0xAA55 \<and> gpt_unused ! 450 = 0xEE \<and>
   map (\<lambda>b. char_of (uint b)) (take 8 (drop 512 gpt_unused)) = ''EFI PART'' \<and>
   uint (u64_at gpt_unused 584) * 512
     + uint (u32_at gpt_unused 592) * uint (u32_at gpt_unused 596) \<le> int (length gpt_unused) \<and>
   u32_at gpt_unused 592 = 2 \<and> u32_at gpt_unused 596 = 128 \<and> u64_at gpt_unused 584 = 2 \<and>
   list_all (\<lambda>b. b = 0) (take 16 (drop 1024 gpt_unused)) \<and>
   list_all (\<lambda>b. b = 0) (take 16 (drop 1152 gpt_unused)) \<and>
   u64_at gpt_unused (1024 + 32) = 34 \<and>
   analyzeDiskImage (buffer gpt_unused) ''disk.img'' =
     Some \<lparr>Filename = ''disk.img'', TableType = ''GPT'',
           Partitions = [PartitionInfo0
             \<lparr>Number := 1, Info := ''GPT structure valid (Rev 1.0)'',
              Note := ''No active partitions found in partition table''\<rparr>],
           Error = [], GPTRevision = []\<rparr>"
proof -
  have len: "length gpt_unused = 1280"
    by code_simp
  have h1: "1024 \<le> length gpt_unused" and h2: "length gpt_unused < 2 ^ 32"
    by (simp_all add: len)
  have h3: "u16_at gpt_unused 510 = 0xAA55" and h4: "gpt_unused ! 450 = 0xEE"
    and h5: "map (\<lambda>b. char_of (uint b)) (take 8 (drop 512 gpt_unused)) = ''EFI PART''"
    and h6: "uint (u64_at gpt_unused 584) * 512
      + uint (u32_at gpt_unused 592) * uint (u32_at gpt_unused 596) \<le> int (length gpt_unused)"
    by code_simp+
  have f: "u64_at gpt_unused 584 = 2" "u32_at gpt_unused 592 = 2" "u32_at gpt_unused 596 = 128"
    "u32_at gpt_unused 520 = 0x10000" "u64_at gpt_unused (1024 + 32) = 34"
    by code_simp+
  have z: "list_all (\<lambda>b. b = 0) (take 16 (drop 1024 gpt_unused))"
    "list_all (\<lambda>b. b = 0) (take 16 (drop 1152 gpt_unused))"
    by code_simp+
  have h7: "\<forall>j<unat (u32_at gpt_unused 592). 16 \<le> unat (u32_at gpt_unused 596) \<and>
      (\<forall>m<16. gpt_unused ! (unat (u64_at gpt_unused 584) * 512
                              + j * unat (u32_at gpt_unused 596) + m) = 0)"
    unfolding f
  proof (intro allI impI conjI)
    show "16 \<le> unat (128 :: uint32)"
      by simp
    fix j m :: nat
    assume "j < unat (2 :: uint32)" "m < 16"
    then have "j < 2"
      by simp
    then consider "j = 0" | "j = 1"
      by linarith
    then show "gpt_unused ! (unat (2 :: uint64) * 512 + j * unat (128 :: uint32) + m) = 0"
    proof cases
      case 1
      have "take 16 (drop 1024 gpt_unused) ! m = 0"
        using z(1) \<open>m < 16\<close> by (simp add: list_all_length len)
      then show ?thesis
        using 1 \<open>m < 16\<close> by (simp add: len)
    next
      case 2
      have "take 16 (drop 1152 gpt_unused) ! m = 0"
        using z(2) \<open>m < 16\<close> by (simp add: list_all_length len)
      then show ?thesis
        using 2 \<open>m < 16\<close> by (simp add: len)
    qed
  qed
  have d: "fmt_d (uint (drop_bit 16 (0x10000 :: uint32))) = ''1''"
    "fmt_d (uint ((0x10000 :: uint32) AND 0xFFFF)) = ''0''"
    by code_simp+
  from no_partitions_advisory [OF h1 h2 h3 h4 h5 h6 h7, of "''disk.img''"]
  have "analyzeDiskImage (buffer gpt_unused) ''disk.img'' =
     Some \<lparr>Filename = ''disk.img'', TableType = ''GPT'',
           Partitions = [PartitionInfo0
             \<lparr>Number := 1, Info := ''GPT structure valid (Rev 1.0)'',
              Note := ''No active partitions found in partition table''\<rparr>],
           Error = [], GPTRevision = []\<rparr>"
    unfolding f d by simp
  with h1 h2 h3 h4 h5 h6 z f show ?thesis
    by simp
qed

subsection \<open>C10: a hard error\<close>

text \<open>
  Claim C10: for every input, whenever the error field of the result is set (the input is
  shorter than 512 bytes, or the boot signature is not \<open>0xAA55\<close>), the table type of the
  result is the empty string and its partition list is empty.
\<close>

theorem hard_error_leaves_no_partitions:
  assumes "analyzeDiskImage (buffer bs) filename = Some r" "Error r \<noteq> []"
  shows "TableType r = [] \<and> Partitions r = [] \<and> (length bs < 512 \<or> u16_at bs 510 \<noteq> 0xAA55)"
proof (cases "length bs < 512")
  case True
  then show ?thesis
    using assms by (auto simp: analyzeDiskImage_def Let_def golen_buffer)
next
  case False
  then show ?thesis
    using assms
    by (auto simp: analyzeDiskImage_def Let_def golen_buffer index_buffer reslice_buffer
        Uint16_slice split: if_splits Option.bind_splits)
qed

text \<open>The theorem at a sector without signature and at an input of three bytes.\<close>

theorem hard_error_leaves_no_partitions_witness:
  "analyzeDiskImage (buffer no_signature) ''disk.img'' =
     Some \<lparr>Filename = ''disk.img'', TableType = [], Partitions = [],
           Error = ''Invalid MBR signature'', GPTRevision = []\<rparr> \<and>
   u16_at no_signature 510 \<noteq> 0xAA55 \<and>
   analyzeDiskImage (buffer [1, 2, 3]) ''disk.img'' =
     Some \<lparr>Filename = ''disk.img'', TableType = [], Partitions = [],
           Error = ''Data too small to contain MBR'', GPTRevision = []\<rparr>"
proof -
  let ?r = "\<lparr>Filename = ''disk.img'', TableType = [], Partitions = [],
           Error = ''Invalid MBR signature'', GPTRevision = []\<rparr>"
  let ?r' = "\<lparr>Filename = ''disk.img'', TableType = [], Partitions = [],
           Error = ''Data too small to contain MBR'', GPTRevision = []\<rparr>"
  have a: "analyzeDiskImage (buffer no_signature) ''disk.img'' = Some ?r"
    and b: "analyzeDiskImage (buffer [1, 2, 3]) ''disk.img'' = Some ?r'"
    by code_simp+
  have s: "u16_at no_signature 510 \<noteq> 0xAA55"
    by code_simp
  have "Error ?r \<noteq> []" "Error ?r' \<noteq> []"
    by simp_all
  from hard_error_leaves_no_partitions [OF a this(1)] hard_error_leaves_no_partitions [OF b this(2)]
    a b s show ?thesis
    by simp
qed

end
